theory Spec2Isabelle
  imports Complex_Main "HOL-Library.Multiset"
begin

section \<open>Data model\<close>

text \<open>
  Python strings are sequences of Unicode code points; a string is modelled as the list of
  its code points, so that \<open>length\<close> is Python's \<open>len\<close>. Coordinates, font sizes and
  confidences are Python floats; they are modelled as reals (the comparisons and the
  sums of the code are read exactly, NaN and infinities are left out).
\<close>

type_synonym ustring = "nat list"

datatype py_error =
    IndexError
  | PDFValidationError ustring
  | FileNotFoundError ustring
  | StorageError ustring
  | FitzError ustring
  | OSError ustring

text \<open>\<open>str(e)\<close> of an exception: its message (empty for a bare IndexError of the model).\<close>

fun str_of_error :: "py_error \<Rightarrow> ustring" where
  "str_of_error IndexError = []"
| "str_of_error (PDFValidationError m) = m"
| "str_of_error (FileNotFoundError m) = m"
| "str_of_error (StorageError m) = m"
| "str_of_error (FitzError m) = m"
| "str_of_error (OSError m) = m"

text \<open>
  The block dictionary built by \<open>_extract_page_blocks\<close>. The keys that the extraction does
  not always set (\<open>occupation_code\<close>) or that later passes add (\<open>hierarchy_level\<close>,
  \<open>occupation_name\<close>, \<open>confidence\<close>) are optional.
\<close>

record block =
  task_id :: ustring
  page_num :: nat
  block_num :: nat
  block_text :: ustring
  x0 :: real
  y0 :: real
  x1 :: real
  y1 :: real
  width :: real
  height :: real
  center_x :: real
  center_y :: real
  font :: ustring
  font_size :: real
  font_flags :: int
  font_color :: int
  is_bold :: bool
  is_italic :: bool
  indentation :: real
  occupation_code :: "ustring option"
  hierarchy_level :: "int option"
  occupation_name :: "ustring option"
  confidence :: "real option"

section \<open>Hierarchy classification (EnhancedPDFProcessor)\<close>

text \<open>Python's \<open>sorted(set(xs))\<close>.\<close>

definition py_sorted_set :: "real list \<Rightarrow> real list" where
  "py_sorted_set xs = sort (remdups xs)"

text \<open>
  \<open>_get_indent_levels\<close>: the loop keeps the list \<open>levels\<close> and appends an indentation that
  exceeds the last kept one by more than 15; the result is cut to four entries.
\<close>

fun indent_levels_loop :: "real list \<Rightarrow> real list \<Rightarrow> real list" where
  "indent_levels_loop levels [] = levels"
| "indent_levels_loop levels (indent # rest) =
     (if indent - last levels > 15
      then indent_levels_loop (levels @ [indent]) rest
      else indent_levels_loop levels rest)"

fun get_indent_levels :: "real list \<Rightarrow> real list" where
  "get_indent_levels [] = []"
| "get_indent_levels (first # rest) = take 4 (indent_levels_loop [first] rest)"

text \<open>
  \<open>_get_indent_level\<close>: the \<open>for i, level in enumerate(levels)\<close> loop returns the first index
  whose level is closer than 10 to the indentation; after the loop \<open>levels[-1]\<close> is read,
  which raises IndexError on an empty list.
\<close>

fun indent_level_scan :: "real \<Rightarrow> real list \<Rightarrow> nat \<Rightarrow> nat option" where
  "indent_level_scan indent [] i = None"
| "indent_level_scan indent (level # rest) i =
     (if \<bar>indent - level\<bar> < 10 then Some i else indent_level_scan indent rest (Suc i))"

definition get_indent_level :: "real \<Rightarrow> real list \<Rightarrow> py_error + nat" where
  "get_indent_level indent levels =
     (case indent_level_scan indent levels 0 of
        Some i \<Rightarrow> Inr i
      | None \<Rightarrow>
          if levels = [] then Inl IndexError
          else Inr (if indent > last levels then length levels else 0))"

text \<open>
  The font-size rule of \<open>_analyze_hierarchy\<close>. The first test of the source is the
  conditional expression \<open>(size >= font_sizes[-1]) if len(font_sizes) >= 1 else 14\<close>, whose
  else branch is the truthy constant 14.
\<close>

definition size_level :: "real list \<Rightarrow> real \<Rightarrow> int" where
  "size_level font_sizes sz =
     (if sz > 0 \<and> font_sizes \<noteq> [] then
        (if (if length font_sizes \<ge> 1 then sz \<ge> last font_sizes else True) then 1
         else if length font_sizes \<ge> 2 \<and> sz \<ge> font_sizes ! (length font_sizes - 2) then 2
         else if length font_sizes \<ge> 3 \<and> sz \<ge> font_sizes ! (length font_sizes - 3) then 3
         else 4)
      else 4)"

text \<open>The indentation adjustment and the bold adjustment, in the order of the source.\<close>

definition indent_adjust :: "int \<Rightarrow> nat \<Rightarrow> int" where
  "indent_adjust level indent_level =
     (if indent_level > 0 then min (level + int indent_level) 4 else level)"

definition bold_adjust :: "bool \<Rightarrow> int \<Rightarrow> int" where
  "bold_adjust bold level = (if bold \<and> level > 1 then level - 1 else level)"

text \<open>The body of the loop over the blocks, for one block.\<close>

definition classify_block :: "real list \<Rightarrow> real list \<Rightarrow> block \<Rightarrow> py_error + block" where
  "classify_block font_sizes indent_levels b =
     (case get_indent_level (indentation b) indent_levels of
        Inl e \<Rightarrow> Inl e
      | Inr indent_level \<Rightarrow>
          Inr (b\<lparr>hierarchy_level :=
                 Some (bold_adjust (is_bold b)
                         (indent_adjust (size_level font_sizes (font_size b)) indent_level))\<rparr>))"

fun classify_blocks :: "real list \<Rightarrow> real list \<Rightarrow> block list \<Rightarrow> py_error + block list" where
  "classify_blocks font_sizes indent_levels [] = Inr []"
| "classify_blocks font_sizes indent_levels (b # bs) =
     (case classify_block font_sizes indent_levels b of
        Inl e \<Rightarrow> Inl e
      | Inr b' \<Rightarrow>
          (case classify_blocks font_sizes indent_levels bs of
             Inl e \<Rightarrow> Inl e
           | Inr bs' \<Rightarrow> Inr (b' # bs')))"

text \<open>
  \<open>_analyze_hierarchy\<close> mutates the blocks in place; the model returns the updated list,
  or the exception that escapes.
\<close>

definition analyze_hierarchy :: "block list \<Rightarrow> py_error + block list" where
  "analyze_hierarchy blocks =
     (if blocks = [] then Inr []
      else
        let font_sizes = py_sorted_set (map font_size (filter (\<lambda>b. font_size b > 0) blocks));
            indentations = py_sorted_set (map indentation blocks);
            indent_levels = get_indent_levels indentations
        in classify_blocks font_sizes indent_levels blocks)"

section \<open>Code and label association (EnhancedPDFProcessor)\<close>

text \<open>
  The regular expressions of the source use the digit class and the white-space class, which
  for Python strings are the Unicode decimal digits and the Unicode white space. These two tables
  belong to the Python runtime; the model takes them as a parameter.
\<close>

record unicode_tables =
  is_decimal :: "nat \<Rightarrow> bool"
  is_space :: "nat \<Rightarrow> bool"

text \<open>
  The tables restricted to ASCII, for evaluating examples: they agree with Python's tables
  on every ASCII character and on every CJK ideograph.
\<close>

definition ascii_tables :: unicode_tables where
  "ascii_tables =
     \<lparr>is_decimal = (\<lambda>c. 48 \<le> c \<and> c \<le> 57),
      is_space = (\<lambda>c. (9 \<le> c \<and> c \<le> 13) \<or> (28 \<le> c \<and> c \<le> 32))\<rparr>"

text \<open>Python's \<open>keyword in text\<close> on strings: \<open>keyword\<close> occurs as a contiguous substring.\<close>

fun starts_with :: "ustring \<Rightarrow> ustring \<Rightarrow> bool" where
  "starts_with s [] = True"
| "starts_with [] (k # ks) = False"
| "starts_with (c # cs) (k # ks) = (c = k \<and> starts_with cs ks)"

fun py_in :: "ustring \<Rightarrow> ustring \<Rightarrow> bool" where
  "py_in keyword [] = (keyword = [])"
| "py_in keyword (c # cs) = (starts_with (c # cs) keyword \<or> py_in keyword cs)"

text \<open>
  The test \<open>re.match\<close> against a non-empty run of digits, white space, dashes and dots that
  reaches the end of the string, where \<open>$\<close> also matches just before a final newline (code point 10).
\<close>

definition code_class :: "unicode_tables \<Rightarrow> nat \<Rightarrow> bool" where
  "code_class U c = (is_decimal U c \<or> is_space U c \<or> c = 45 \<or> c = 46)"

definition matches_code_like :: "unicode_tables \<Rightarrow> ustring \<Rightarrow> bool" where
  "matches_code_like U s =
     (s \<noteq> [] \<and>
      (list_all (code_class U) s \<or>
       (last s = 10 \<and> butlast s \<noteq> [] \<and> list_all (code_class U) (butlast s))))"

text \<open>
  The keyword list of \<open>_is_occupation_name\<close>, as code points, in the order of the source:
  U+5458, U+5E08, U+5DE5, U+957F, U+5BB6, U+4EBA U+5458, U+6280 U+672F, U+7BA1 U+7406,
  U+64CD U+4F5C, U+4E13 U+5458, U+4E3B U+7BA1.
\<close>

definition job_keywords :: "ustring list" where
  "job_keywords =
     [[21592], [24072], [24037], [38271], [23478], [20154, 21592], [25216, 26415],
      [31649, 29702], [25805, 20316], [19987, 21592], [20027, 31649]]"

text \<open>The class of the code points U+4E00 to U+9FA5.\<close>

definition is_chinese :: "nat \<Rightarrow> bool" where
  "is_chinese c = (19968 \<le> c \<and> c \<le> 40869)"

definition is_occupation_name :: "unicode_tables \<Rightarrow> ustring \<Rightarrow> bool" where
  "is_occupation_name U s =
     (if matches_code_like U s then False
      else if list_ex (\<lambda>keyword. py_in keyword s) job_keywords then True
      else
        let chinese_chars = length (filter is_chinese s)
        in if s \<noteq> [] then real chinese_chars / real (length s) > 1 / 2 else False)"

text \<open>The two geometric tests of \<open>_match_occupation_info\<close>, for a coded block and a candidate.\<close>

definition same_row :: "block \<Rightarrow> block \<Rightarrow> bool" where
  "same_row blk candidate = (\<bar>center_y candidate - center_y blk\<bar> < height blk)"

definition next_row :: "block \<Rightarrow> block \<Rightarrow> bool" where
  "next_row blk candidate =
     (center_y candidate > center_y blk \<and>
      center_y candidate - center_y blk < height blk * 2)"

text \<open>
  The inner loop over the candidates \<open>blocks[i+1 .. min(i+5, len(blocks)) - 1]\<close>. It returns
  the name and the confidence to store, or nothing when the loop ends without a
  \<open>break\<close>.
\<close>

fun scan_candidates :: "unicode_tables \<Rightarrow> block \<Rightarrow> block list \<Rightarrow> (ustring \<times> real) option" where
  "scan_candidates U blk [] = None"
| "scan_candidates U blk (candidate # rest) =
     (if same_row blk candidate then
        (if is_occupation_name U (block_text candidate)
         then Some (block_text candidate, 9 / 10)
         else scan_candidates U blk rest)
      else if next_row blk candidate then
        (if is_occupation_name U (block_text candidate)
         then Some (block_text candidate, 7 / 10)
         else scan_candidates U blk rest)
      else scan_candidates U blk rest)"

text \<open>
  One iteration of the outer loop, at index \<open>i\<close>. \<open>not block.get("occupation_code")\<close> holds
  for a missing key and for an empty string.
\<close>

definition match_at :: "unicode_tables \<Rightarrow> nat \<Rightarrow> block list \<Rightarrow> block list" where
  "match_at U i blocks =
     (let blk = blocks ! i in
      if occupation_code blk = None \<or> occupation_code blk = Some [] then blocks
      else
        (case scan_candidates U blk (take 4 (drop (Suc i) blocks)) of
           None \<Rightarrow> blocks
         | Some (name, conf) \<Rightarrow>
             blocks[i := blk\<lparr>occupation_name := Some name, confidence := Some conf\<rparr>]))"

text \<open>\<open>_match_occupation_info\<close>: the outer loop runs over the indices of the list in order.\<close>

definition match_occupation_info :: "unicode_tables \<Rightarrow> block list \<Rightarrow> block list" where
  "match_occupation_info U blocks = fold (match_at U) [0..<length blocks] blocks"

section \<open>Page table heuristic (PageSnapshotService)\<close>

text \<open>
  An entry of \<open>page.get_text("blocks")\<close>: the tuple
  \<open>(x0, y0, x1, y1, text, block_no, block_type)\<close>; \<open>b[0]\<close> is \<open>pb_x0\<close> and \<open>b[1]\<close> is \<open>pb_y0\<close>.
\<close>

record page_block =
  pb_x0 :: real
  pb_y0 :: real
  pb_x1 :: real
  pb_y1 :: real
  pb_text :: ustring
  pb_no :: nat
  pb_type :: nat

text \<open>
  Python's \<open>round(y, 1)\<close>, read on the reals: the nearest multiple of one tenth, a tie going
  to the even multiple.
\<close>

definition round_half_even :: "real \<Rightarrow> int" where
  "round_half_even x =
     (let f = \<lfloor>x\<rfloor>; d = x - of_int f in
      if d < 1 / 2 then f
      else if d > 1 / 2 then f + 1
      else if even f then f else f + 1)"

definition py_round1 :: "real \<Rightarrow> real" where
  "py_round1 y = of_int (round_half_even (y * 10)) / 10"

text \<open>
  \<open>collections.Counter(xs)\<close>: a dictionary from the elements to their numbers of
  occurrences, kept as an association list in order of first occurrence.
\<close>

fun counter_add :: "'a \<Rightarrow> ('a \<times> nat) list \<Rightarrow> ('a \<times> nat) list" where
  "counter_add k [] = [(k, 1)]"
| "counter_add k ((k', n) # rest) =
     (if k = k' then (k', n + 1) # rest else (k', n) # counter_add k rest)"

definition py_counter :: "'a list \<Rightarrow> ('a \<times> nat) list" where
  "py_counter xs = fold counter_add xs []"

text \<open>
  \<open>_detect_tables\<close>. The loop over \<open>y_counter.values()\<close> sets the result to 1 at the first
  count of at least 3.
\<close>

definition detect_tables :: "page_block list \<Rightarrow> nat" where
  "detect_tables text_blocks =
     (if length text_blocks > 3 then
        (let y_positions = map pb_y0 text_blocks;
             y_counter = py_counter (map py_round1 y_positions)
         in if list_ex (\<lambda>count. count \<ge> 3) (map snd y_counter) then 1 else 0)
      else 0)"

section \<open>The environment: files and documents\<close>

text \<open>
  What \<open>stat\<close> reports for a path that exists: whether it is a regular file, and its size.
  The queries \<open>exists\<close>, \<open>is_file\<close> and \<open>stat\<close> of \<open>pathlib\<close> all rest on \<open>stat\<close>. For a path the
  file system answers in one of three ways (field \<open>file_system\<close> of the environment
  below): the path exists, with its information; the path does not exist, then \<open>exists\<close>
  and \<open>is_file\<close> return False and \<open>stat\<close> raises; or the operating system refuses the
  query with an error that \<open>pathlib\<close> does not swallow (a name that is too long, a
  directory that may not be searched), then all three queries raise that \<open>OSError\<close>.
\<close>

record file_info =
  is_regular :: bool
  st_size :: nat

text \<open>
  A page as the document reader and the renderer present it. Each access may raise:
  loading the page, reading its plain text (\<open>page.get_text()\<close>), reading its spans into
  blocks (\<open>_extract_page_blocks\<close>), rendering it (\<open>get_pixmap\<close> and \<open>tobytes\<close>), storing the
  image, reading its block-level boxes (\<open>page.get_text("blocks")\<close>) and analysing its
  fonts (\<open>_analyze_fonts\<close>, which yields the primary font and the size histogram).
  \<open>page_thumbnail_ok\<close> tells whether \<open>_create_thumbnail\<close> gets to its \<open>return\<close>.
\<close>

record rendered =
  pix_width :: nat
  pix_height :: nat
  png_size :: nat

record pdf_page =
  page_load_fault :: "py_error option"
  page_text :: "py_error + ustring"
  page_blocks :: "py_error + block list"
  page_width :: real
  page_height :: real
  page_render :: "py_error + rendered"
  page_upload_fault :: "py_error option"
  page_thumbnail_ok :: bool
  page_layout_blocks :: "py_error + page_block list"
  page_images_count :: nat
  page_fonts :: "py_error + (ustring option \<times> (int \<times> nat) list option)"

text \<open>
  An opened document. \<open>doc_enhanced_fault\<close> is the exception, if any, that escapes the
  page analysis, image inventory, structure summary and quality checks of the enhanced
  level; these sub-analyses produce report fields that no property below reads, and
  the model keeps only whether they raise.
\<close>

record document =
  doc_encrypted :: bool
  doc_authenticates :: bool
  doc_metadata :: "py_error + (ustring \<times> ustring option) list"
  doc_pages :: "pdf_page list"
  doc_enhanced_fault :: "py_error option"

text \<open>The outcome of \<open>fitz.open(path)\<close>.\<close>

datatype open_outcome =
    FileDataError ustring
  | OpenException ustring
  | Opened document

text \<open>
  The world as one attempt of a task sees it: the file system, the document reader, the
  object store's download (which yields the path of the temporary file), the first
  matches of the code pattern in a text (\<open>xixi_pattern.findall\<close>), the settings, the
  Unicode tables and the clock at the start and at the end of the attempt.
\<close>

record environment =
  file_system :: "ustring \<Rightarrow> py_error + file_info option"
  fitz_open :: "ustring \<Rightarrow> open_outcome"
  path_str :: "ustring \<Rightarrow> ustring"
  path_name :: "ustring \<Rightarrow> ustring"
  download_file :: "ustring \<Rightarrow> py_error + ustring"
  find_codes :: "ustring \<Rightarrow> ustring list"
  max_file_size :: nat
  tables :: unicode_tables
  clock_start :: nat
  clock_end :: nat

section \<open>Validation levels (PDFProcessor)\<close>

text \<open>
  The result dictionary. The keys \<open>file_size\<close>, \<open>file_name\<close> and \<open>validation_type\<close> are added
  by \<open>validate_pdf\<close> and hold 0 and the empty string until then; the timing keys and the
  report keys of the enhanced and strict levels are left out.
\<close>

record validation_result =
  is_valid :: bool
  errors :: "ustring list"
  warnings :: "ustring list"
  page_count :: nat
  result_text :: ustring
  result_metadata :: "(ustring \<times> ustring option) list"
  file_size :: nat
  file_name :: ustring
  validation_type :: ustring

text \<open>Python's \<open>str(n)\<close> for a natural number, \<open>sep.join(xs)\<close> and \<open>s.strip()\<close>.\<close>

fun str_nat :: "nat \<Rightarrow> ustring" where
  "str_nat n = (if n < 10 then [48 + n] else str_nat (n div 10) @ [48 + n mod 10])"

fun py_join :: "ustring \<Rightarrow> ustring list \<Rightarrow> ustring" where
  "py_join sep [] = []"
| "py_join sep [x] = x"
| "py_join sep (x # y # ys) = x @ sep @ py_join sep (y # ys)"

definition py_strip :: "unicode_tables \<Rightarrow> ustring \<Rightarrow> ustring" where
  "py_strip U s = rev (dropWhile (is_space U) (rev (dropWhile (is_space U) s)))"

text \<open>
  The string literals of the source, as code points. \<open>join_separator\<close> is the literal that
  \<open>_standard_validation\<close> joins the page texts with: the source text has a backslash
  escape followed by the letter n between the quotes, which denotes the two characters
  backslash (92) and n (110).
\<close>

definition join_separator :: ustring where
  "join_separator = [92, 110]"

definition msg_not_exists :: ustring where
  "msg_not_exists = [25991, 20214, 19981, 23384, 22312, 58, 32]"

definition msg_not_file :: ustring where
  "msg_not_file = [19981, 26159, 26377, 25928, 25991, 20214, 58, 32]"

definition msg_too_large :: ustring where
  "msg_too_large = [25991, 20214, 36807, 22823, 58, 32]"

definition msg_max_allowed :: ustring where
  "msg_max_allowed = [32, 98, 121, 116, 101, 115, 44, 32, 26368, 22823, 20801, 35768, 58, 32]"

definition msg_bytes :: ustring where
  "msg_bytes = [32, 98, 121, 116, 101, 115]"

definition msg_empty_file :: ustring where
  "msg_empty_file = [25991, 20214, 20026, 31354]"

definition msg_encrypted :: ustring where
  "msg_encrypted = [80, 68, 70, 25991, 26723, 34987, 21152, 23494, 65292, 26080, 27861, 35775, 38382]"

definition msg_corrupt :: ustring where
  "msg_corrupt = [80, 68, 70, 25991, 20214, 25439, 22351, 25110, 26684, 24335, 19981, 27491,
     30830, 58, 32]"

definition msg_cannot_open :: ustring where
  "msg_cannot_open = [26080, 27861, 25171, 24320, 80, 68, 70, 25991, 26723, 58, 32]"

definition msg_unsupported_type :: ustring where
  "msg_unsupported_type = [19981, 25903, 25345, 30340, 39564, 35777, 31867, 22411, 58, 32]"

definition msg_processing_failed :: ustring where
  "msg_processing_failed = [80, 68, 70, 22788, 29702, 22833, 36133, 58, 32]"

definition msg_standard_failed :: ustring where
  "msg_standard_failed = [26631, 20934, 39564, 35777, 22833, 36133, 58, 32]"

definition msg_enhanced_failed :: ustring where
  "msg_enhanced_failed = [22686, 24378, 39564, 35777, 22833, 36133, 58, 32]"

definition msg_no_pages :: ustring where
  "msg_no_pages = [80, 68, 70, 25991, 26723, 26080, 39029, 38754]"

definition msg_no_text :: ustring where
  "msg_no_text = [80, 68, 70, 25991, 26723, 26080, 25991, 26412, 20869, 23481]"

definition msg_strict_no_text :: ustring where
  "msg_strict_no_text = [20005, 26684, 27169, 24335, 58, 32, 80, 68, 70, 24517, 39035, 21253,
     21547, 21487, 25552, 21462, 30340, 25991, 26412]"

definition msg_strict_no_pages :: ustring where
  "msg_strict_no_pages = [20005, 26684, 27169, 24335, 58, 32, 80, 68, 70, 24517, 39035, 21253,
     21547, 33267, 23569, 19968, 39029]"

definition msg_strict_missing_field :: ustring where
  "msg_strict_missing_field = [20005, 26684, 27169, 24335, 24314, 35758, 58, 32, 32570, 23569,
     20803, 25968, 25454, 23383, 27573, 32]"

definition type_standard :: ustring where
  "type_standard = [115, 116, 97, 110, 100, 97, 114, 100]"

definition type_enhanced :: ustring where
  "type_enhanced = [101, 110, 104, 97, 110, 99, 101, 100]"

definition type_strict :: ustring where
  "type_strict = [115, 116, 114, 105, 99, 116]"

text \<open>\<open>_validate_file_basic\<close>: four checks, each raising.\<close>

definition validate_file_basic :: "environment \<Rightarrow> ustring \<Rightarrow> py_error + unit" where
  "validate_file_basic env file_path =
     (case file_system env file_path of
        Inl e \<Rightarrow> Inl e
      | Inr None \<Rightarrow> Inl (FileNotFoundError (msg_not_exists @ path_str env file_path))
      | Inr (Some info) \<Rightarrow>
          if \<not> is_regular info
          then Inl (PDFValidationError (msg_not_file @ path_str env file_path))
          else if st_size info > max_file_size env
          then Inl (PDFValidationError
                 (msg_too_large @ str_nat (st_size info) @ msg_max_allowed @
                  str_nat (max_file_size env) @ msg_bytes))
          else if st_size info = 0 then Inl (PDFValidationError msg_empty_file)
          else Inr ())"

text \<open>
  \<open>_open_pdf_document\<close>. The error raised for an encrypted document is raised inside the
  \<open>try\<close> and caught by its last handler, which wraps the message once more.
\<close>

definition open_pdf_document :: "environment \<Rightarrow> ustring \<Rightarrow> py_error + document" where
  "open_pdf_document env file_path =
     (case fitz_open env file_path of
        FileDataError m \<Rightarrow> Inl (PDFValidationError (msg_corrupt @ m))
      | OpenException m \<Rightarrow> Inl (PDFValidationError (msg_cannot_open @ m))
      | Opened doc \<Rightarrow>
          if doc_encrypted doc \<and> \<not> doc_authenticates doc
          then Inl (PDFValidationError (msg_cannot_open @ msg_encrypted))
          else Inr doc)"

text \<open>The loop of \<open>_standard_validation\<close> that collects the page texts.\<close>

fun collect_page_texts :: "pdf_page list \<Rightarrow> py_error + ustring list" where
  "collect_page_texts [] = Inr []"
| "collect_page_texts (p # ps) =
     (case page_load_fault p of
        Some e \<Rightarrow> Inl e
      | None \<Rightarrow>
          (case page_text p of
             Inl e \<Rightarrow> Inl e
           | Inr t \<Rightarrow>
               (case collect_page_texts ps of
                  Inl e \<Rightarrow> Inl e
                | Inr ts \<Rightarrow> Inr (t # ts))))"

text \<open>
  \<open>_standard_validation\<close>. An exception inside its \<open>try\<close> marks the result invalid and
  appends an error; what was stored in the dictionary before stays.
\<close>

definition standard_failed :: "validation_result \<Rightarrow> py_error \<Rightarrow> validation_result" where
  "standard_failed r e =
     r\<lparr>is_valid := False, errors := errors r @ [msg_standard_failed @ str_of_error e]\<rparr>"

definition standard_validation :: "unicode_tables \<Rightarrow> document \<Rightarrow> validation_result" where
  "standard_validation U doc =
     (let r0 = \<lparr>is_valid = True, errors = [], warnings = [],
                page_count = length (doc_pages doc), result_text = [], result_metadata = [],
                file_size = 0, file_name = [], validation_type = []\<rparr>
      in case doc_metadata doc of
           Inl e \<Rightarrow> standard_failed r0 e
         | Inr md \<Rightarrow>
             (let r1 = r0\<lparr>result_metadata := md\<rparr>
              in case collect_page_texts (doc_pages doc) of
                   Inl e \<Rightarrow> standard_failed r1 e
                 | Inr text_content \<Rightarrow>
                     (let r2 = r1\<lparr>result_text := py_join join_separator text_content\<rparr>;
                          r3 = (if length (doc_pages doc) = 0
                                then r2\<lparr>warnings := warnings r2 @ [msg_no_pages]\<rparr> else r2);
                          r4 = (if py_strip U (result_text r3) = []
                                then r3\<lparr>warnings := warnings r3 @ [msg_no_text]\<rparr> else r3)
                      in r4)))"

text \<open>\<open>_enhanced_validation\<close>: the standard result, with an error appended when a sub-analysis raises.\<close>

definition enhanced_validation :: "unicode_tables \<Rightarrow> document \<Rightarrow> validation_result" where
  "enhanced_validation U doc =
     (let r = standard_validation U doc
      in case doc_enhanced_fault doc of
           None \<Rightarrow> r
         | Some e \<Rightarrow> r\<lparr>errors := errors r @ [msg_enhanced_failed @ str_of_error e]\<rparr>)"

text \<open>
  \<open>_strict_validation\<close>: the three checks of the strict level catch their own exceptions
  and only add report fields; then come the strict errors and the metadata warnings.
  \<open>not metadata.get(field)\<close> holds for a missing key, for None and for the empty string.
\<close>

definition metadata_missing :: "(ustring \<times> ustring option) list \<Rightarrow> ustring \<Rightarrow> bool" where
  "metadata_missing md field =
     (case map_of md field of
        None \<Rightarrow> True
      | Some None \<Rightarrow> True
      | Some (Some v) \<Rightarrow> v = [])"

definition required_metadata :: "ustring list" where
  "required_metadata = [[84, 105, 116, 108, 101], [65, 117, 116, 104, 111, 114],
                        [67, 114, 101, 97, 116, 111, 114]]"

definition strict_validation :: "unicode_tables \<Rightarrow> document \<Rightarrow> validation_result" where
  "strict_validation U doc =
     (let r = enhanced_validation U doc;
          strict_errors =
            (if py_strip U (result_text r) = [] then [msg_strict_no_text] else []) @
            (if page_count r = 0 then [msg_strict_no_pages] else []);
          r1 = r\<lparr>warnings := warnings r @
                 map (\<lambda>field. msg_strict_missing_field @ field)
                   (filter (metadata_missing (result_metadata r)) required_metadata)\<rparr>
      in if strict_errors \<noteq> []
         then r1\<lparr>errors := errors r1 @ strict_errors, is_valid := False\<rparr>
         else r1)"

text \<open>
  \<open>validate_pdf\<close>. \<open>validate_pdf_try\<close> is the body of the \<open>try\<close> statement, up to an
  exception or the returned dictionary. The \<open>metadata\<close> argument is not read; \<open>stat()\<close> on a
  missing path raises.
\<close>

definition validate_pdf_try :: "environment \<Rightarrow> ustring \<Rightarrow> ustring \<Rightarrow> py_error + validation_result" where
  "validate_pdf_try env file_path vtype =
     (case validate_file_basic env file_path of
        Inl e \<Rightarrow> Inl e
      | Inr _ \<Rightarrow>
          (case open_pdf_document env file_path of
             Inl e \<Rightarrow> Inl e
           | Inr doc \<Rightarrow>
               (let dispatched =
                      (if vtype = type_standard then Inr (standard_validation (tables env) doc)
                       else if vtype = type_enhanced then Inr (enhanced_validation (tables env) doc)
                       else if vtype = type_strict then Inr (strict_validation (tables env) doc)
                       else Inl (PDFValidationError (msg_unsupported_type @ vtype)))
                in case dispatched of
                     Inl e \<Rightarrow> Inl e
                   | Inr result \<Rightarrow>
                       (case file_system env file_path of
                          Inl e \<Rightarrow> Inl e
                        | Inr None \<Rightarrow> Inl (FileNotFoundError (path_str env file_path))
                        | Inr (Some info) \<Rightarrow>
                            Inr (result\<lparr>file_size := st_size info,
                                        file_name := path_name env file_path,
                                        validation_type := vtype\<rparr>)))))"

text \<open>
  The \<open>except Exception\<close> handler of \<open>validate_pdf\<close> builds the failure dictionary. For
  its entries \<open>file_size\<close> and \<open>file_name\<close> it asks \<open>file_path_obj.exists()\<close>, and \<open>stat()\<close>
  when the path exists; an \<open>OSError\<close> of these queries is raised inside the handler and
  leaves \<open>validate_pdf\<close>.
\<close>

definition validate_pdf ::
  "environment \<Rightarrow> ustring \<Rightarrow> ustring \<Rightarrow> 'm \<Rightarrow> py_error + validation_result" where
  "validate_pdf env file_path vtype metadata =
     (case validate_pdf_try env file_path vtype of
        Inr result \<Rightarrow> Inr result
      | Inl e \<Rightarrow>
          (case file_system env file_path of
             Inl e' \<Rightarrow> Inl e'
           | Inr found \<Rightarrow>
               Inr \<lparr>is_valid = False,
                    errors = [msg_processing_failed @ str_of_error e],
                    warnings = [],
                    page_count = 0,
                    result_text = [],
                    result_metadata = [],
                    file_size = (case found of None \<Rightarrow> 0 | Some info \<Rightarrow> st_size info),
                    file_name = (case found of
                                   None \<Rightarrow> [] | Some info \<Rightarrow> path_name env file_path),
                    validation_type = vtype\<rparr>))"

section \<open>Database sessions\<close>

text \<open>
  A session on one table: the committed rows and the rows added since the last commit.
  \<open>db.add\<close> queues a row, \<open>db.commit\<close> makes the queued rows permanent, \<open>db.rollback\<close>
  drops them. Database calls themselves are taken not to fail.
\<close>

record 'a session =
  committed :: "'a list"
  pending :: "'a list"

definition db_open :: "'a list \<Rightarrow> 'a session" where
  "db_open rows = \<lparr>committed = rows, pending = []\<rparr>"

definition db_add :: "'a \<Rightarrow> 'a session \<Rightarrow> 'a session" where
  "db_add row s = s\<lparr>pending := pending s @ [row]\<rparr>"

definition db_commit :: "'a session \<Rightarrow> 'a session" where
  "db_commit s = \<lparr>committed = committed s @ pending s, pending = []\<rparr>"

definition db_rollback :: "'a session \<Rightarrow> 'a session" where
  "db_rollback s = s\<lparr>pending := []\<rparr>"

section \<open>Page snapshots (PageSnapshotService)\<close>

text \<open>The dictionary returned by \<open>_extract_single_page\<close> and the row of table \<open>pdf_page_snapshots\<close>.\<close>

record snapshot_info =
  minio_path :: ustring
  thumbnail_path :: "ustring option"
  snap_page_width :: real
  snap_page_height :: real
  image_width :: nat
  image_height :: nat
  image_format :: ustring
  image_size :: nat
  text_blocks_count :: nat
  images_count :: nat
  tables_count :: nat
  primary_font :: "ustring option"
  font_sizes :: "(int \<times> nat) list option"
  has_header :: bool
  has_footer :: bool
  columns_count :: nat

record snapshot_row =
  snap_task_id :: ustring
  snap_page_num :: nat
  snap_dpi :: nat
  snap_info :: snapshot_info

text \<open>The format \<open>{n:04d}\<close>: the decimal digits, padded with zeros on the left to four.\<close>

definition format_04d :: "nat \<Rightarrow> ustring" where
  "format_04d n = replicate (4 - length (str_nat n)) 48 @ str_nat n"

definition snapshot_key :: "ustring \<Rightarrow> nat \<Rightarrow> ustring" where
  "snapshot_key tid pnum =
     [112, 100, 102, 45, 115, 110, 97, 112, 115, 104, 111, 116, 115, 47] @ tid @
     [47, 112, 97, 103, 101, 95] @ format_04d (pnum + 1) @ [46, 112, 110, 103]"

definition thumbnail_key :: "ustring \<Rightarrow> nat \<Rightarrow> ustring" where
  "thumbnail_key tid pnum =
     [112, 100, 102, 45, 115, 110, 97, 112, 115, 104, 111, 116, 115, 47] @ tid @
     [47, 116, 104, 117, 109, 98, 110, 97, 105, 108, 115, 47, 112, 97, 103, 101, 95] @
     format_04d (pnum + 1) @ [95, 116, 104, 117, 109, 98, 46, 112, 110, 103]"

text \<open>
  \<open>_detect_layout\<close>: header and footer bands at a tenth of the page height, and the
  column count from the gaps between the sorted left edges of the blocks between the
  bands.
\<close>

fun count_gaps :: "real \<Rightarrow> real list \<Rightarrow> nat" where
  "count_gaps w (a # b # rest) = (if b - a > w then 1 else 0) + count_gaps w (b # rest)"
| "count_gaps w xs = 0"

definition detect_layout :: "real \<Rightarrow> real \<Rightarrow> page_block list \<Rightarrow> bool \<times> bool \<times> nat" where
  "detect_layout page_w page_h text_blocks =
     (if text_blocks = [] then (False, False, 1)
      else
        let header_threshold = page_h * (1 / 10);
            footer_threshold = page_h * (9 / 10);
            header = list_ex (\<lambda>b. pb_y0 b < header_threshold) text_blocks;
            footer = list_ex (\<lambda>b. pb_y0 b > footer_threshold) text_blocks;
            x_positions = map pb_x0 (filter (\<lambda>b. header_threshold < pb_y0 b \<and>
                                                 pb_y0 b < footer_threshold) text_blocks);
            gaps = count_gaps (page_w * (1 / 10)) (sort x_positions)
        in (header, footer, if gaps \<ge> 1 then min (gaps + 1) 3 else 1))"

text \<open>
  \<open>_extract_single_page\<close> for the page with 0-based number \<open>pnum\<close>: load, render, store,
  thumbnail (its failure is not fatal), content analysis, font analysis, layout.
\<close>

definition extract_single_page ::
  "ustring \<Rightarrow> pdf_page \<Rightarrow> nat \<Rightarrow> nat \<Rightarrow> bool \<Rightarrow> py_error + snapshot_info" where
  "extract_single_page tid page pnum dpi save_thumbnail =
     (case page_load_fault page of
        Some e \<Rightarrow> Inl e
      | None \<Rightarrow>
     (case page_render page of
        Inl e \<Rightarrow> Inl e
      | Inr pix \<Rightarrow>
     (case page_upload_fault page of
        Some e \<Rightarrow> Inl e
      | None \<Rightarrow>
     (let thumb = (if save_thumbnail \<and> page_thumbnail_ok page
                   then Some (thumbnail_key tid pnum) else None)
      in case page_layout_blocks page of
           Inl e \<Rightarrow> Inl e
         | Inr text_blocks \<Rightarrow>
     (case page_fonts page of
        Inl e \<Rightarrow> Inl e
      | Inr (pfont, sizes) \<Rightarrow>
     (case detect_layout (page_width page) (page_height page) text_blocks of
        (header, footer, columns) \<Rightarrow>
          Inr \<lparr>minio_path = snapshot_key tid pnum,
               thumbnail_path = thumb,
               snap_page_width = page_width page,
               snap_page_height = page_height page,
               image_width = pix_width pix,
               image_height = pix_height pix,
               image_format = [112, 110, 103],
               image_size = png_size pix,
               text_blocks_count = length text_blocks,
               images_count = page_images_count page,
               tables_count = detect_tables text_blocks,
               primary_font = pfont,
               font_sizes = sizes,
               has_header = header,
               has_footer = footer,
               columns_count = columns\<rparr>))))))"

text \<open>
  The loop of \<open>extract_page_snapshots\<close>: each page's snapshot is extracted, its row is added
  to the session and its dictionary is appended to the result list. An exception leaves
  the loop with the session as it is at that point.
\<close>

fun snapshot_loop ::
  "ustring \<Rightarrow> nat \<Rightarrow> bool \<Rightarrow> pdf_page list \<Rightarrow> nat \<Rightarrow> snapshot_row session \<Rightarrow>
   snapshot_info list \<Rightarrow> (py_error + snapshot_info list) \<times> snapshot_row session" where
  "snapshot_loop tid dpi save_thumbnail [] pnum s snapshots = (Inr snapshots, s)"
| "snapshot_loop tid dpi save_thumbnail (page # rest) pnum s snapshots =
     (case extract_single_page tid page pnum dpi save_thumbnail of
        Inl e \<Rightarrow> (Inl e, s)
      | Inr info \<Rightarrow>
          snapshot_loop tid dpi save_thumbnail rest (Suc pnum)
            (db_add \<lparr>snap_task_id = tid, snap_page_num = pnum + 1, snap_dpi = dpi,
                     snap_info = info\<rparr> s)
            (snapshots @ [info]))"

text \<open>
  \<open>extract_page_snapshots\<close>, on the committed rows of the snapshot table: one commit after
  the loop; in the \<open>except\<close> branch a rollback, and the exception is raised again.
\<close>

definition extract_page_snapshots ::
  "ustring \<Rightarrow> document \<Rightarrow> nat option \<Rightarrow> bool \<Rightarrow> snapshot_row list \<Rightarrow>
   (py_error + snapshot_info list) \<times> snapshot_row list" where
  "extract_page_snapshots tid doc dpi_arg save_thumbnail rows =
     (let dpi = (case dpi_arg of None \<Rightarrow> 150 | Some d \<Rightarrow> d)
      in case snapshot_loop tid dpi save_thumbnail (doc_pages doc) 0 (db_open rows) [] of
           (Inl e, s) \<Rightarrow> (Inl e, committed (db_rollback s))
         | (Inr snapshots, s) \<Rightarrow> (Inr snapshots, committed (db_commit s)))"

section \<open>The database\<close>

datatype task_status = Pending | Processing | Completed | Failed | Cancelled

text \<open>
  The columns of \<open>ValidationTask\<close> that the worker writes (and the two retry columns), the
  summary stored in \<open>result_summary\<close>, and the row of \<open>ValidationResult\<close>.
\<close>

record result_summary =
  rs_is_valid :: bool
  rs_page_count :: nat
  rs_text_length :: nat
  rs_has_errors :: bool

record validation_task =
  status :: task_status
  started_at :: "nat option"
  completed_at :: "nat option"
  task_summary :: "result_summary option"
  error_message :: "ustring option"
  retry_count :: nat
  max_retries :: nat

record result_row =
  rr_task_id :: ustring
  rr_pdf_path :: ustring
  rr_validation_type :: ustring
  rr_result :: validation_result

text \<open>The committed contents of the four tables.\<close>

record database =
  db_tasks :: "ustring \<rightharpoonup> validation_task"
  db_results :: "result_row list"
  db_blocks :: "block list"
  db_snapshots :: "snapshot_row list"

section \<open>Block extraction with persistence (EnhancedPDFProcessor)\<close>

text \<open>
  The result dictionary of \<open>process_pdf_with_blocks\<close>; the processing time and the list of
  fonts are left out.
\<close>

record enhanced_result =
  er_is_valid :: bool
  er_page_count :: nat
  er_total_blocks :: nat
  er_unique_occupation_codes :: nat
  er_extracted_text :: ustring
  er_with_occupation_code :: nat
  er_hierarchy_levels :: "(int \<times> nat) list"
  er_snapshots_extracted :: nat
  er_snapshots_total_size :: nat
  er_snapshots_with_thumbnails :: nat

definition msg_newline :: ustring where
  "msg_newline = [10]"

text \<open>
  The page loop of \<open>process_pdf_with_blocks\<close>: for each page its blocks, its text and the
  codes found in its text are collected; any exception leaves the loop.
\<close>

fun extract_blocks_loop ::
  "environment \<Rightarrow> pdf_page list \<Rightarrow> block list \<Rightarrow> ustring list \<Rightarrow> ustring list \<Rightarrow>
   py_error + (block list \<times> ustring list \<times> ustring list)" where
  "extract_blocks_loop env [] all_blocks all_text codes = Inr (all_blocks, all_text, codes)"
| "extract_blocks_loop env (page # rest) all_blocks all_text codes =
     (case page_load_fault page of
        Some e \<Rightarrow> Inl e
      | None \<Rightarrow>
          (case page_blocks page of
             Inl e \<Rightarrow> Inl e
           | Inr blocks_of_page \<Rightarrow>
               (case page_text page of
                  Inl e \<Rightarrow> Inl e
                | Inr t \<Rightarrow>
                    extract_blocks_loop env rest (all_blocks @ blocks_of_page)
                      (all_text @ [t]) (codes @ find_codes env t))))"

text \<open>\<open>_save_blocks_to_db\<close>: every block is added to a session, then one commit.\<close>

definition save_blocks_to_db :: "ustring \<Rightarrow> block list \<Rightarrow> database \<Rightarrow> database" where
  "save_blocks_to_db tid blocks db =
     db\<lparr>db_blocks :=
          committed (db_commit (fold db_add (map (\<lambda>b. b\<lparr>task_id := tid\<rparr>) blocks)
                                  (db_open (db_blocks db))))\<rparr>"

text \<open>
  The snapshot step of \<open>process_pdf_with_blocks\<close>: an exception of the snapshot service is
  logged and the main flow goes on with an empty snapshot list.
\<close>

definition snapshot_step ::
  "ustring \<Rightarrow> document \<Rightarrow> bool \<Rightarrow> database \<Rightarrow> snapshot_info list \<times> database" where
  "snapshot_step tid doc extract_snapshots db =
     (if extract_snapshots then
        (case extract_page_snapshots tid doc (Some 150) True (db_snapshots db) of
           (Inl e, rows) \<Rightarrow> ([], db\<lparr>db_snapshots := rows\<rparr>)
         | (Inr infos, rows) \<Rightarrow> (infos, db\<lparr>db_snapshots := rows\<rparr>))
      else ([], db))"

text \<open>
  \<open>process_pdf_with_blocks\<close>. \<open>process_pdf_with_blocks_try\<close> is the body of its \<open>try\<close>
  statement; the handler wraps every exception into a \<open>PDFValidationError\<close>.
\<close>

definition process_pdf_with_blocks_try ::
  "environment \<Rightarrow> ustring \<Rightarrow> ustring \<Rightarrow> bool \<Rightarrow> bool \<Rightarrow> database \<Rightarrow>
   (py_error + enhanced_result) \<times> database" where
  "process_pdf_with_blocks_try env tid file_path save_to_db extract_snapshots db =
     (case fitz_open env file_path of
        FileDataError m \<Rightarrow> (Inl (FitzError m), db)
      | OpenException m \<Rightarrow> (Inl (FitzError m), db)
      | Opened doc \<Rightarrow>
          (case extract_blocks_loop env (doc_pages doc) [] [] [] of
             Inl e \<Rightarrow> (Inl e, db)
           | Inr (all_blocks, all_text, codes) \<Rightarrow>
               (case snapshot_step tid doc extract_snapshots db of
                  (snapshots_info, db1) \<Rightarrow>
                    (case analyze_hierarchy all_blocks of
                       Inl e \<Rightarrow> (Inl e, db1)
                     | Inr classified \<Rightarrow>
                         (let matched = match_occupation_info (tables env) classified;
                              db2 = (if save_to_db then save_blocks_to_db tid matched db1
                                     else db1)
                          in (Inr \<lparr>er_is_valid = True,
                                   er_page_count = length (doc_pages doc),
                                   er_total_blocks = length matched,
                                   er_unique_occupation_codes = length (remdups codes),
                                   er_extracted_text = py_join msg_newline all_text,
                                   er_with_occupation_code =
                                     length (filter (\<lambda>b. occupation_code b \<noteq> None \<and>
                                                          occupation_code b \<noteq> Some []) matched),
                                   er_hierarchy_levels =
                                     map (\<lambda>l. (l, length (filter (\<lambda>b. (case hierarchy_level b of
                                                                    None \<Rightarrow> 4 | Some x \<Rightarrow> x) = l)
                                                              matched))) [1, 2, 3, 4],
                                   er_snapshots_extracted = length snapshots_info,
                                   er_snapshots_total_size = sum_list (map image_size snapshots_info),
                                   er_snapshots_with_thumbnails =
                                     length (filter (\<lambda>s. thumbnail_path s \<noteq> None \<and>
                                                          thumbnail_path s \<noteq> Some [])
                                               snapshots_info)\<rparr>,
                              db2))))))"

definition process_pdf_with_blocks ::
  "environment \<Rightarrow> ustring \<Rightarrow> ustring \<Rightarrow> bool \<Rightarrow> bool \<Rightarrow> database \<Rightarrow>
   (py_error + enhanced_result) \<times> database" where
  "process_pdf_with_blocks env tid file_path save_to_db extract_snapshots db =
     (case process_pdf_with_blocks_try env tid file_path save_to_db extract_snapshots db of
        (Inl e, db') \<Rightarrow> (Inl (PDFValidationError (msg_processing_failed @ str_of_error e)), db')
      | (Inr result, db') \<Rightarrow> (Inr result, db'))"

section \<open>The worker (PDFValidationWorker and validate_pdf_task)\<close>

definition msg_validation_failed :: ustring where
  "msg_validation_failed = [80, 68, 70, 39564, 35777, 22833, 36133, 58, 32]"

definition msg_task :: ustring where
  "msg_task = [84, 97, 115, 107, 32]"

definition msg_not_found :: ustring where
  "msg_not_found = [32, 110, 111, 116, 32, 102, 111, 117, 110, 100]"

definition msg_local_not_found :: ustring where
  "msg_local_not_found = [76, 111, 99, 97, 108, 32, 102, 105, 108, 101, 32, 110, 111, 116, 32,
     102, 111, 117, 110, 100, 58, 32]"

text \<open>
  The prefix of the error message that \<open>validate_pdf_task\<close> stores when the retries are used
  up; it reads "task failed, the maximum number of retries has been reached: ".
\<close>

definition msg_max_retries :: ustring where
  "msg_max_retries = [20219, 21153, 22833, 36133, 65292, 24050, 36798, 26368, 22823, 37325,
     35797, 27425, 25968, 58, 32]"

text \<open>
  \<open>_validate_pdf_file\<close>: the validation result, or a failure dictionary when \<open>validate_pdf\<close>
  raises.
\<close>

definition validate_pdf_file :: "environment \<Rightarrow> ustring \<Rightarrow> ustring \<Rightarrow> 'm \<Rightarrow> validation_result" where
  "validate_pdf_file env file_path vtype metadata =
     (case validate_pdf env file_path vtype metadata of
        Inr result \<Rightarrow> result
      | Inl e \<Rightarrow>
          \<lparr>is_valid = False, errors = [msg_validation_failed @ str_of_error e], warnings = [],
           page_count = 0, result_text = [], result_metadata = [], file_size = 0,
           file_name = [], validation_type = []\<rparr>)"

text \<open>
  Step 2 of \<open>process_validation_task\<close>: a path that starts with a slash or with \<open>C:\<close> is a
  local file that must exist; any other path is downloaded from the object store into a
  temporary file. The result is the local path handed to the validation.
\<close>

definition is_local_path :: "ustring \<Rightarrow> bool" where
  "is_local_path p = (starts_with p [47] \<or> starts_with p [67, 58])"

definition resolve_path :: "environment \<Rightarrow> ustring \<Rightarrow> py_error + ustring" where
  "resolve_path env pdf_file_path =
     (if is_local_path pdf_file_path then
        (case file_system env pdf_file_path of
           Inl e \<Rightarrow> Inl e
         | Inr None \<Rightarrow> Inl (FileNotFoundError (msg_local_not_found @ pdf_file_path))
         | Inr (Some info) \<Rightarrow> Inr (path_str env pdf_file_path))
      else download_file env pdf_file_path)"

definition summary_of :: "validation_result \<Rightarrow> result_summary" where
  "summary_of r =
     \<lparr>rs_is_valid = is_valid r, rs_page_count = page_count r,
      rs_text_length = length (result_text r), rs_has_errors = (length (errors r) > 0)\<rparr>"

text \<open>
  \<open>process_validation_task\<close>: look the task up, mark it as processing, resolve the file,
  validate, run the block extraction (whose exception is logged as a warning and
  dropped), store the result row and mark the task as completed. The \<open>except\<close> branch
  marks a task that was found as failed, with the message of the exception, and raises
  the exception again. The removal of the downloaded temporary file at the end is left
  out.
\<close>

definition process_validation_task ::
  "environment \<Rightarrow> ustring \<Rightarrow> ustring \<Rightarrow> ustring \<Rightarrow> 'm \<Rightarrow> database \<Rightarrow>
   (py_error + validation_result) \<times> database" where
  "process_validation_task env tid pdf_file_path vtype metadata db =
     (case db_tasks db tid of
        None \<Rightarrow> (Inl (PDFValidationError (msg_task @ tid @ msg_not_found)), db)
      | Some task \<Rightarrow>
          (let task1 = task\<lparr>status := Processing, started_at := Some (clock_start env)\<rparr>;
               db1 = db\<lparr>db_tasks := (db_tasks db)(tid \<mapsto> task1)\<rparr>
           in case resolve_path env pdf_file_path of
                Inl e \<Rightarrow>
                  (Inl e,
                   db1\<lparr>db_tasks := (db_tasks db1)(tid \<mapsto>
                          task1\<lparr>status := Failed, completed_at := Some (clock_end env),
                                error_message := Some (str_of_error e)\<rparr>)\<rparr>)
              | Inr temp_path \<Rightarrow>
                  (let validation_result = validate_pdf_file env temp_path vtype metadata;
                       db2 = snd (process_pdf_with_blocks env tid temp_path True True db1);
                       db3 = db2\<lparr>db_results := db_results db2 @
                                  [\<lparr>rr_task_id = tid, rr_pdf_path = pdf_file_path,
                                    rr_validation_type = vtype,
                                    rr_result = validation_result\<rparr>]\<rparr>;
                       db4 = db3\<lparr>db_tasks := (db_tasks db3)(tid \<mapsto>
                                  task1\<lparr>status := Completed,
                                        completed_at := Some (clock_end env),
                                        task_summary := Some (summary_of validation_result)\<rparr>)\<rparr>
                   in (Inr validation_result, db4))))"

text \<open>
  \<open>validate_pdf_task\<close> with \<open>self.request.retries = retries\<close> and
  \<open>settings.MAX_RETRY_ATTEMPTS = max_attempts\<close>. An exception of the worker is answered by
  \<open>raise self.retry(exc=exc)\<close>, which the model returns as \<open>Inl exc\<close>; before that, when the
  retries are used up, the task is marked as failed with the max-retries message.
\<close>

definition validate_pdf_task ::
  "nat \<Rightarrow> nat \<Rightarrow> environment \<Rightarrow> ustring \<Rightarrow> ustring \<Rightarrow> ustring \<Rightarrow> 'm \<Rightarrow> database \<Rightarrow>
   (py_error + validation_result) \<times> database" where
  "validate_pdf_task max_attempts retries env tid pdf_file_path vtype metadata db =
     (case process_validation_task env tid pdf_file_path vtype metadata db of
        (Inr result, db') \<Rightarrow> (Inr result, db')
      | (Inl exc, db') \<Rightarrow>
          (Inl exc,
           if retries \<ge> max_attempts then
             (case db_tasks db' tid of
                None \<Rightarrow> db'
              | Some task \<Rightarrow>
                  db'\<lparr>db_tasks := (db_tasks db')(tid \<mapsto>
                        task\<lparr>status := Failed, completed_at := Some (clock_end env),
                              error_message := Some (msg_max_retries @ str_of_error exc)\<rparr>)\<rparr>)
           else db'))"

text \<open>
  Modelled from the spec: the redelivery loop of the task queue (Celery's \<open>Task.retry\<close>,
  which is not part of the repository). On an exception the task is scheduled again
  with the retry counter incremented by one, until the counter would exceed the
  configured maximum; a returned result ends the loop. The list holds the environment
  that each successive attempt meets.
\<close>

fun run_attempts ::
  "nat \<Rightarrow> nat \<Rightarrow> environment list \<Rightarrow> ustring \<Rightarrow> ustring \<Rightarrow> ustring \<Rightarrow> 'm \<Rightarrow> database \<Rightarrow>
   database" where
  "run_attempts max_attempts retries [] tid pdf_file_path vtype metadata db = db"
| "run_attempts max_attempts retries (env # envs) tid pdf_file_path vtype metadata db =
     (case validate_pdf_task max_attempts retries env tid pdf_file_path vtype metadata db of
        (Inr result, db') \<Rightarrow> db'
      | (Inl exc, db') \<Rightarrow>
          if retries + 1 > max_attempts then db'
          else run_attempts max_attempts (retries + 1) envs tid pdf_file_path vtype metadata db')"

section \<open>Auxiliary notions for the proofs\<close>

text \<open>
  The value that \<open>_get_indent_level\<close> returns when it does not raise, the two document-wide
  lists that \<open>_analyze_hierarchy\<close> computes before its loop, and the level that the loop
  body assigns to one block.
\<close>

definition indent_level_of :: "real \<Rightarrow> real list \<Rightarrow> nat" where
  "indent_level_of x levels =
     (case indent_level_scan x levels 0 of
        Some i \<Rightarrow> i
      | None \<Rightarrow> if x > last levels then length levels else 0)"

definition doc_font_sizes :: "block list \<Rightarrow> real list" where
  "doc_font_sizes blocks =
     py_sorted_set (map font_size (filter (\<lambda>b. font_size b > 0) blocks))"

definition doc_indent_levels :: "block list \<Rightarrow> real list" where
  "doc_indent_levels blocks = get_indent_levels (py_sorted_set (map indentation blocks))"

definition level_of :: "real list \<Rightarrow> real list \<Rightarrow> block \<Rightarrow> int" where
  "level_of fs levels b =
     bold_adjust (is_bold b)
       (indent_adjust (size_level fs (font_size b)) (indent_level_of (indentation b) levels))"

text \<open>A sample block: bold, 12 pt, at the left margin.\<close>

definition ex_block :: block where
  "ex_block = \<lparr>task_id = [116], page_num = 1, block_num = 0, block_text = [49],
     x0 = 0, y0 = 0, x1 = 10, y1 = 10, width = 10, height = 10, center_x = 5, center_y = 5,
     font = [], font_size = 12, font_flags = 16, font_color = 0, is_bold = True,
     is_italic = False, indentation = 0, occupation_code = None, hierarchy_level = None,
     occupation_name = None, confidence = None\<rparr>"

text \<open>A sample document of three blocks with three font sizes and three indentations.\<close>

definition ex_doc :: "block list" where
  "ex_doc = [ex_block,
             ex_block\<lparr>font_size := 10, indentation := 20, is_bold := False\<rparr>,
             ex_block\<lparr>font_size := 8, indentation := 40, is_bold := False\<rparr>]"

text \<open>
  Three sample blocks: a block carrying the code 1-01-01-01, a block one row below it and a
  block on its row further right; the latter two carry two-ideograph role names
  (U+5DE5 U+4EBA and U+6559 U+5E08).
\<close>

definition coded_block :: block where
  "coded_block = ex_block\<lparr>block_text := [49, 45, 48, 49, 45, 48, 49, 45, 48, 49],
     occupation_code := Some [49, 45, 48, 49, 45, 48, 49, 45, 48, 49]\<rparr>"

definition below_block :: block where
  "below_block = ex_block\<lparr>block_num := 1, block_text := [24037, 20154],
     y0 := 15, y1 := 25, center_y := 20\<rparr>"

definition beside_block :: block where
  "beside_block = ex_block\<lparr>block_num := 2, block_text := [25945, 24072],
     x0 := 60, x1 := 80, center_x := 70, indentation := 60\<rparr>"

text \<open>A sample page block with its top edge at y = 100.\<close>

definition ex_page_block :: page_block where
  "ex_page_block = \<lparr>pb_x0 = 50, pb_y0 = 100, pb_x1 = 90, pb_y1 = 112, pb_text = [97],
     pb_no = 0, pb_type = 0\<rparr>"

text \<open>
  A sample readable page with the text "a" and no blocks, a sample document of two
  readable pages with the texts "a" and "b", and a sample environment in which no path
  exists and every open attempt fails.
\<close>

definition ex_page :: pdf_page where
  "ex_page =
     \<lparr>page_load_fault = None, page_text = Inr [97], page_blocks = Inr [],
      page_width = 595, page_height = 842,
      page_render = Inr \<lparr>pix_width = 1240, pix_height = 1754, png_size = 1000\<rparr>,
      page_upload_fault = None, page_thumbnail_ok = True, page_layout_blocks = Inr [],
      page_images_count = 0, page_fonts = Inr (None, None)\<rparr>"

definition ex_two_pages :: document where
  "ex_two_pages =
     \<lparr>doc_encrypted = False, doc_authenticates = True, doc_metadata = Inr [],
      doc_pages = [ex_page, ex_page\<lparr>page_text := Inr [98]\<rparr>],
      doc_enhanced_fault = None\<rparr>"

definition ex_empty_env :: environment where
  "ex_empty_env =
     \<lparr>file_system = (\<lambda>p. Inr None), fitz_open = (\<lambda>p. OpenException []),
      path_str = (\<lambda>p. p), path_name = (\<lambda>p. p),
      download_file = (\<lambda>p. Inl (StorageError [])), find_codes = (\<lambda>t. []),
      max_file_size = 52428800, tables = ascii_tables, clock_start = 1, clock_end = 2\<rparr>"

text \<open>
  The row that the snapshot loop adds for a page whose snapshot succeeds, and a sample
  document whose second page cannot be stored.
\<close>

definition page_row :: "ustring \<Rightarrow> nat \<Rightarrow> bool \<Rightarrow> nat \<Rightarrow> pdf_page \<Rightarrow> snapshot_row" where
  "page_row tid dpi save_thumbnail pnum page =
     \<lparr>snap_task_id = tid, snap_page_num = pnum + 1, snap_dpi = dpi,
      snap_info = (case extract_single_page tid page pnum dpi save_thumbnail of
                     Inr info \<Rightarrow> info)\<rparr>"

definition ex_failing_doc :: document where
  "ex_failing_doc =
     ex_two_pages\<lparr>doc_pages := [ex_page, ex_page\<lparr>page_upload_fault := Some (StorageError [])\<rparr>]\<rparr>"

text \<open>
  A sample document whose second page cannot be read into blocks, an environment in which
  every path is a regular file of 100 bytes that opens as that document, a pending task
  and a database that holds only this task under the id "t".
\<close>

definition ex_bad_doc :: document where
  "ex_bad_doc =
     ex_two_pages\<lparr>doc_pages := [ex_page, ex_page\<lparr>page_blocks := Inl (FitzError [])\<rparr>]\<rparr>"

definition ex_bad_env :: environment where
  "ex_bad_env =
     ex_empty_env\<lparr>file_system := (\<lambda>p. Inr (Some \<lparr>is_regular = True, st_size = 100\<rparr>)),
                  fitz_open := (\<lambda>p. Opened ex_bad_doc)\<rparr>"

definition ex_task :: validation_task where
  "ex_task = \<lparr>status = Pending, started_at = None, completed_at = None, task_summary = None,
     error_message = None, retry_count = 0, max_retries = 3\<rparr>"

definition ex_db :: database where
  "ex_db = \<lparr>db_tasks = [[116] \<mapsto> ex_task], db_results = [], db_blocks = [], db_snapshots = []\<rparr>"

text \<open>
  A path whose only component has 304 characters, and a sample environment whose file
  system refuses every path of more than 255 characters with an \<open>OSError\<close> (message
  "File name too long") and knows no other path.
\<close>

definition ex_long_path :: ustring where
  "ex_long_path = 47 # replicate 300 97 @ [46, 112, 100, 102]"

definition msg_name_too_long :: ustring where
  "msg_name_too_long = [70, 105, 108, 101, 32, 110, 97, 109, 101, 32, 116, 111, 111, 32, 108,
     111, 110, 103]"

definition ex_long_name_env :: environment where
  "ex_long_name_env =
     ex_empty_env\<lparr>file_system :=
       (\<lambda>p. if length p > 255 then Inl (OSError msg_name_too_long) else Inr None)\<rparr>"

section \<open>Properties of the hierarchy classification\<close>

lemma size_level_range: "size_level fs s \<in> {1, 2, 3, 4}"
  by (simp add: size_level_def)

lemma indent_adjust_range: "l \<in> {1, 2, 3, 4} \<Longrightarrow> indent_adjust l k \<in> {1, 2, 3, 4}"
  by (auto simp: indent_adjust_def min_def)

lemma bold_adjust_range: "l \<in> {1, 2, 3, 4} \<Longrightarrow> bold_adjust bd l \<in> {1, 2, 3, 4}"
  by (auto simp: bold_adjust_def)

lemma py_sorted_set_set: "py_sorted_set xs = sorted_list_of_set (set xs)"
  by (simp add: py_sorted_set_def sorted_list_of_set_sort_remdups)

lemma py_sorted_set_nonempty: "xs \<noteq> [] \<Longrightarrow> py_sorted_set xs \<noteq> []"
  by (cases xs) (auto simp: py_sorted_set_def dest: arg_cong[where f=set])

lemma indent_levels_loop_nonempty: "levels \<noteq> [] \<Longrightarrow> indent_levels_loop levels rest \<noteq> []"
  by (induction levels rest rule: indent_levels_loop.induct) auto

lemma get_indent_levels_nonempty: "xs \<noteq> [] \<Longrightarrow> get_indent_levels xs \<noteq> []"
  by (cases xs) (auto simp: indent_levels_loop_nonempty)

lemma get_indent_level_total:
  "levels \<noteq> [] \<Longrightarrow> get_indent_level x levels = Inr (indent_level_of x levels)"
  by (simp add: get_indent_level_def indent_level_of_def split: option.splits)

lemma classify_block_total:
  "levels \<noteq> [] \<Longrightarrow>
   classify_block fs levels b = Inr (b\<lparr>hierarchy_level := Some (level_of fs levels b)\<rparr>)"
  by (simp add: classify_block_def get_indent_level_total level_of_def)

lemma classify_blocks_total:
  "levels \<noteq> [] \<Longrightarrow>
   classify_blocks fs levels bs =
     Inr (map (\<lambda>b. b\<lparr>hierarchy_level := Some (level_of fs levels b)\<rparr>) bs)"
  by (induction bs) (simp_all add: classify_block_total)

lemma level_of_range: "level_of fs levels b \<in> {1, 2, 3, 4}"
  unfolding level_of_def by (intro bold_adjust_range indent_adjust_range size_level_range)

lemma doc_indent_levels_nonempty: "blocks \<noteq> [] \<Longrightarrow> doc_indent_levels blocks \<noteq> []"
  by (simp add: doc_indent_levels_def get_indent_levels_nonempty py_sorted_set_nonempty)

lemma analyze_hierarchy_total:
  "analyze_hierarchy blocks =
     Inr (map (\<lambda>b. b\<lparr>hierarchy_level :=
                 Some (level_of (doc_font_sizes blocks) (doc_indent_levels blocks) b)\<rparr>) blocks)"
proof (cases "blocks = []")
  case True
  then show ?thesis by (simp add: analyze_hierarchy_def)
next
  case False
  then have "doc_indent_levels blocks \<noteq> []" by (rule doc_indent_levels_nonempty)
  then show ?thesis using False
    by (simp add: analyze_hierarchy_def Let_def classify_blocks_total
        doc_font_sizes_def[symmetric] doc_indent_levels_def[symmetric])
qed

text \<open>
  Claim C2. For every block list, also one with no or one positive font size, the
  classification does not raise, returns as many blocks as it was given, and every
  returned block carries a hierarchy level among 1, 2, 3 and 4. The bold adjustment
  never takes a level of at least 1 below 1, and the indentation adjustment never takes
  a level of at most 4 above 4.
\<close>

theorem hierarchy_level_in_range:
  "\<exists>bs'. analyze_hierarchy blocks = Inr bs' \<and> length bs' = length blocks \<and>
     (\<forall>b \<in> set bs'. \<exists>l. hierarchy_level b = Some l \<and> l \<in> {1, 2, 3, 4}) \<and>
     (\<forall>bd l. 1 \<le> l \<longrightarrow> 1 \<le> bold_adjust bd l) \<and>
     (\<forall>l k. l \<le> 4 \<longrightarrow> indent_adjust l k \<le> 4)"
proof -
  have a: "\<forall>bd l. 1 \<le> l \<longrightarrow> 1 \<le> bold_adjust bd l"
    by (simp add: bold_adjust_def)
  have b: "\<forall>l k. l \<le> 4 \<longrightarrow> indent_adjust l k \<le> 4"
    by (simp add: indent_adjust_def)
  show ?thesis
    unfolding analyze_hierarchy_total using a b level_of_range by auto
qed

theorem hierarchy_level_in_range_witness:
  "\<exists>bs'. analyze_hierarchy
            [ex_block, ex_block\<lparr>font_size := 0, indentation := 40, is_bold := False\<rparr>] = Inr bs' \<and>
     bs' \<noteq> [] \<and>
     (\<forall>b \<in> set bs'. \<exists>l. hierarchy_level b = Some l \<and> l \<in> {1, 2, 3, 4}) \<and>
     1 \<le> bold_adjust True 1 \<and> indent_adjust 4 3 \<le> 4"
  using hierarchy_level_in_range
    [of "[ex_block, ex_block\<lparr>font_size := 0, indentation := 40, is_bold := False\<rparr>]"]
  by fastforce

lemma indent_level_scan_Some:
  "indent_level_scan x levels i = Some k \<Longrightarrow>
     i \<le> k \<and> k - i < length levels \<and> \<bar>x - levels ! (k - i)\<bar> < 10 \<and>
     (\<forall>j < k - i. \<not> \<bar>x - levels ! j\<bar> < 10)"
proof (induction x levels i rule: indent_level_scan.induct)
  case (1 indent i)
  then show ?case by simp
next
  case (2 indent level rest i)
  show ?case
  proof (cases "\<bar>indent - level\<bar> < 10")
    case True
    with 2 show ?thesis by simp
  next
    case False
    with 2 have s: "indent_level_scan indent rest (Suc i) = Some k" by simp
    from "2.IH"[OF False s] have ih: "Suc i \<le> k" "k - Suc i < length rest"
      "\<bar>indent - rest ! (k - Suc i)\<bar> < 10" "\<forall>j<k - Suc i. \<not> \<bar>indent - rest ! j\<bar> < 10"
      by auto
    have e: "k - i = Suc (k - Suc i)" using ih(1) by simp
    show ?thesis using ih False unfolding e
      by (auto simp: nth_Cons split: nat.splits)
  qed
qed

lemma indent_level_scan_None:
  "indent_level_scan x levels i = None \<longleftrightarrow> (\<forall>j < length levels. \<not> \<bar>x - levels ! j\<bar> < 10)"
  by (induction x levels i rule: indent_level_scan.induct) (auto simp: nth_Cons split: nat.splits)

text \<open>
  Claim C6, as amended. For every indentation and every non-empty tier list (in particular
  one built by \<open>_get_indent_levels\<close>), \<open>_get_indent_level\<close> returns the index of the
  first tier, in list order, that lies strictly closer than 10 units to the indentation;
  if no tier is that close, it returns the number of tiers when the indentation exceeds the
  last tier and 0 otherwise.
\<close>

theorem get_indent_level_first_within:
  assumes "levels \<noteq> []"
  shows "\<exists>k. get_indent_level x levels = Inr k \<and>
           (if \<exists>i < length levels. \<bar>x - levels ! i\<bar> < 10
            then k < length levels \<and> \<bar>x - levels ! k\<bar> < 10 \<and>
                 (\<forall>j < k. \<not> \<bar>x - levels ! j\<bar> < 10)
            else k = (if x > last levels then length levels else 0))"
proof (cases "indent_level_scan x levels 0")
  case None
  then show ?thesis using assms indent_level_scan_None[of x levels 0]
    by (simp add: get_indent_level_def)
next
  case (Some k)
  from indent_level_scan_Some[OF Some] have "k < length levels" "\<bar>x - levels ! k\<bar> < 10"
    "\<forall>j < k. \<not> \<bar>x - levels ! j\<bar> < 10" by auto
  then show ?thesis using Some by (auto simp: get_indent_level_def)
qed

theorem get_indent_level_first_within_witness:
  "[0, 16, 40] \<noteq> ([] :: real list) \<and>
   get_indent_levels (py_sorted_set [0, 16, 9, 40]) = [0, 16, 40] \<and>
   get_indent_level 9 [0, 16, 40] = Inr 0 \<and> get_indent_level 27 [0, 16, 40] = Inr 0 \<and>
   get_indent_level 51 [0, 16, 40] = Inr 3"
proof -
  have h: "[0, 16, 40] \<noteq> ([] :: real list)" by simp
  show ?thesis
    using get_indent_level_first_within [OF h, of 9]
      get_indent_level_first_within [OF h, of 27]
      get_indent_level_first_within [OF h, of 51]
    by (simp add: py_sorted_set_def get_indent_level_def)
qed

text \<open>
  Claim C6 as stated fails: with the indentations 0, 9 and 16 the tier builder yields the
  tiers 0 and 16; the indentation 9 is within 10 units of both, the nearest is tier 1
  (distance 7), and the code returns tier 0 (distance 9).
\<close>

theorem indent_level_nearest_counterexample:
  "get_indent_levels (py_sorted_set [0, 9, 16]) = [0, 16] \<and>
   get_indent_level 9 [0, 16] = Inr 0 \<and>
   \<bar>(9::real) - [0, 16] ! 1\<bar> < 10 \<and> \<bar>(9::real) - [0, 16] ! 1\<bar> < \<bar>9 - [0, 16] ! 0\<bar>"
  by (simp add: py_sorted_set_def get_indent_level_def)

lemma doc_font_sizes_set:
  "doc_font_sizes blocks = sorted_list_of_set (font_size ` {b \<in> set blocks. font_size b > 0})"
  by (simp add: doc_font_sizes_def py_sorted_set_set)

lemma doc_indent_levels_set:
  "doc_indent_levels blocks = get_indent_levels (sorted_list_of_set (indentation ` set blocks))"
  by (simp add: doc_indent_levels_def py_sorted_set_set)

lemma set_permuted:
  assumes "mset p = mset [0..<length xs]"
  shows "set (map ((!) xs) p) = set xs"
proof -
  have "set p = {0..<length xs}" using assms by (metis mset_eq_setD set_upt)
  then show ?thesis by (auto simp: in_set_conv_nth)
qed

lemma analyze_hierarchy_permuted:
  assumes "mset p = mset [0..<length blocks]"
    and "analyze_hierarchy blocks = Inr rs"
  shows "analyze_hierarchy (map ((!) blocks) p) = Inr (map ((!) rs) p)"
proof -
  let ?bs' = "map ((!) blocks) p"
  have s: "set ?bs' = set blocks" using assms(1) by (rule set_permuted)
  have f: "doc_font_sizes ?bs' = doc_font_sizes blocks"
    unfolding doc_font_sizes_set s ..
  have l: "doc_indent_levels ?bs' = doc_indent_levels blocks"
    unfolding doc_indent_levels_set s ..
  have p: "\<forall>i \<in> set p. i < length blocks"
    using assms(1) by (metis atLeastLessThan_iff mset_eq_setD set_upt)
  have rs: "rs = map (\<lambda>b. b\<lparr>hierarchy_level :=
                 Some (level_of (doc_font_sizes blocks) (doc_indent_levels blocks) b)\<rparr>) blocks"
    using assms(2) by (simp add: analyze_hierarchy_total)
  show ?thesis
    unfolding analyze_hierarchy_total f l using p by (simp add: rs)
qed

lemma analyze_hierarchy_depends:
  assumes "font_size ` {b \<in> set blocks2. font_size b > 0} = font_size ` {b \<in> set blocks. font_size b > 0}"
    and "indentation ` set blocks2 = indentation ` set blocks"
    and "i < length blocks" "j < length blocks2"
    and "font_size (blocks2 ! j) = font_size (blocks ! i)"
    and "indentation (blocks2 ! j) = indentation (blocks ! i)"
    and "is_bold (blocks2 ! j) = is_bold (blocks ! i)"
    and "analyze_hierarchy blocks = Inr rs"
  shows "\<exists>rs2. analyze_hierarchy blocks2 = Inr rs2 \<and>
           hierarchy_level (rs2 ! j) = hierarchy_level (rs ! i)"
proof -
  have f: "doc_font_sizes blocks2 = doc_font_sizes blocks"
    unfolding doc_font_sizes_set assms(1) ..
  have l: "doc_indent_levels blocks2 = doc_indent_levels blocks"
    unfolding doc_indent_levels_set assms(2) ..
  have rs: "rs = map (\<lambda>b. b\<lparr>hierarchy_level :=
                 Some (level_of (doc_font_sizes blocks) (doc_indent_levels blocks) b)\<rparr>) blocks"
    using assms(8) by (simp add: analyze_hierarchy_total)
  let ?g = "\<lambda>b. b\<lparr>hierarchy_level :=
                 Some (level_of (doc_font_sizes blocks) (doc_indent_levels blocks) b)\<rparr>"
  have a2: "analyze_hierarchy blocks2 = Inr (map ?g blocks2)"
    unfolding analyze_hierarchy_total f l ..
  have "level_of (doc_font_sizes blocks) (doc_indent_levels blocks) (blocks2 ! j) =
        level_of (doc_font_sizes blocks) (doc_indent_levels blocks) (blocks ! i)"
    unfolding level_of_def assms(5) assms(6) assms(7) ..
  then have "hierarchy_level (map ?g blocks2 ! j) = hierarchy_level (rs ! i)"
    unfolding rs using assms(3) assms(4) by simp
  with a2 show ?thesis by blast
qed

text \<open>
  Claim C7. The classification is a function of its input (two runs on equal input give
  equal results), and it is independent of the order of the blocks: for every block list
  the run returns a result \<open>rs\<close> such that (a) for every permutation \<open>p\<close> of the positions,
  the run on the permuted list returns the permuted \<open>rs\<close>, so no block changes its level,
  and (b) for every other document with the same set of positive font sizes and the same
  set of indentations, a block with the same font size, indentation and bold flag gets the
  same level.
\<close>

theorem analyze_hierarchy_order_independent:
  "\<exists>rs. analyze_hierarchy blocks = Inr rs \<and> length rs = length blocks \<and>
     (\<forall>p. mset p = mset [0..<length blocks] \<longrightarrow>
        analyze_hierarchy (map ((!) blocks) p) = Inr (map ((!) rs) p)) \<and>
     (\<forall>blocks2 i j.
        font_size ` {b \<in> set blocks2. font_size b > 0} =
          font_size ` {b \<in> set blocks. font_size b > 0} \<and>
        indentation ` set blocks2 = indentation ` set blocks \<and>
        i < length blocks \<and> j < length blocks2 \<and>
        font_size (blocks2 ! j) = font_size (blocks ! i) \<and>
        indentation (blocks2 ! j) = indentation (blocks ! i) \<and>
        is_bold (blocks2 ! j) = is_bold (blocks ! i) \<longrightarrow>
        (\<exists>rs2. analyze_hierarchy blocks2 = Inr rs2 \<and>
           hierarchy_level (rs2 ! j) = hierarchy_level (rs ! i)))"
proof -
  obtain rs where rs: "analyze_hierarchy blocks = Inr rs" "length rs = length blocks"
    by (simp add: analyze_hierarchy_total)
  have a: "\<forall>p. mset p = mset [0..<length blocks] \<longrightarrow>
        analyze_hierarchy (map ((!) blocks) p) = Inr (map ((!) rs) p)"
    using analyze_hierarchy_permuted[OF _ rs(1)] by (intro allI impI)
  have b: "\<forall>blocks2 i j.
        font_size ` {b \<in> set blocks2. font_size b > 0} =
          font_size ` {b \<in> set blocks. font_size b > 0} \<and>
        indentation ` set blocks2 = indentation ` set blocks \<and>
        i < length blocks \<and> j < length blocks2 \<and>
        font_size (blocks2 ! j) = font_size (blocks ! i) \<and>
        indentation (blocks2 ! j) = indentation (blocks ! i) \<and>
        is_bold (blocks2 ! j) = is_bold (blocks ! i) \<longrightarrow>
        (\<exists>rs2. analyze_hierarchy blocks2 = Inr rs2 \<and>
           hierarchy_level (rs2 ! j) = hierarchy_level (rs ! i))"
  proof (intro allI impI, elim conjE)
    fix blocks2 :: "block list" and i j :: nat
    assume "font_size ` {b \<in> set blocks2. font_size b > 0} =
          font_size ` {b \<in> set blocks. font_size b > 0}"
      "indentation ` set blocks2 = indentation ` set blocks"
      "i < length blocks" "j < length blocks2"
      "font_size (blocks2 ! j) = font_size (blocks ! i)"
      "indentation (blocks2 ! j) = indentation (blocks ! i)"
      "is_bold (blocks2 ! j) = is_bold (blocks ! i)"
    then show "\<exists>rs2. analyze_hierarchy blocks2 = Inr rs2 \<and>
           hierarchy_level (rs2 ! j) = hierarchy_level (rs ! i)"
      using rs(1) by (rule analyze_hierarchy_depends)
  qed
  from rs(1) rs(2) a b show ?thesis by (intro exI[of _ rs] conjI)
qed

theorem analyze_hierarchy_order_independent_witness:
  "mset [2, 0, 1] = mset [0..<length ex_doc] \<and>
   (\<exists>rs. analyze_hierarchy ex_doc = Inr rs \<and>
      analyze_hierarchy [ex_doc ! 2, ex_doc ! 0, ex_doc ! 1] = Inr [rs ! 2, rs ! 0, rs ! 1])"
proof -
  have h: "mset [2, 0, 1] = mset [0..<length ex_doc]"
    by (simp add: ex_doc_def upt_rec)
  from analyze_hierarchy_order_independent [of ex_doc]
  obtain rs where r: "analyze_hierarchy ex_doc = Inr rs"
    and p: "\<forall>p. mset p = mset [0..<length ex_doc] \<longrightarrow>
        analyze_hierarchy (map ((!) ex_doc) p) = Inr (map ((!) rs) p)"
    by (elim exE conjE)
  from p h have "analyze_hierarchy (map ((!) ex_doc) [2, 0, 1]) = Inr (map ((!) rs) [2, 0, 1])"
    by (elim allE impE)
  then have "analyze_hierarchy [ex_doc ! 2, ex_doc ! 0, ex_doc ! 1] = Inr [rs ! 2, rs ! 0, rs ! 1]"
    by simp
  with h r show ?thesis by (intro conjI exI[of _ rs])
qed

section \<open>Properties of the code and label association\<close>

lemma length_match_at: "length (match_at U i bs) = length bs"
  by (simp add: match_at_def Let_def split: option.splits prod.splits)

lemma match_at_other: "j \<noteq> i \<Longrightarrow> match_at U i bs ! j = bs ! j"
  by (simp add: match_at_def Let_def split: option.splits prod.splits)

lemma drop_match_at: "i < k \<Longrightarrow> drop k (match_at U i bs) = drop k bs"
  by (simp add: match_at_def Let_def split: option.splits prod.splits)

lemma length_fold_match: "length (fold (match_at U) is bs) = length bs"
  by (induction "is" arbitrary: bs) (simp_all add: length_match_at)

lemma drop_fold_prefix: "k \<le> m \<Longrightarrow> drop m (fold (match_at U) [0..<k] bs) = drop m bs"
  by (induction k) (simp_all add: drop_match_at)

lemma fold_suffix_nth: "\<forall>j \<in> set js. i < j \<Longrightarrow> fold (match_at U) js bs ! i = bs ! i"
  by (induction js arbitrary: bs) (simp_all add: match_at_other)

lemma match_at_depends:
  assumes "drop i bs1 = drop i bs" and "i < length bs"
  shows "match_at U i bs1 ! i = match_at U i bs ! i"
proof -
  have l: "length bs1 = length bs"
    using arg_cong[OF assms(1), of length] assms(2) by simp
  have n: "bs1 ! i = bs ! i"
    using assms l by (metis Cons_nth_drop_Suc list.inject)
  have d: "drop (Suc i) bs1 = drop (Suc i) bs"
    using assms(1) by (metis drop_drop plus_1_eq_Suc)
  show ?thesis using assms(2) l
    by (simp add: match_at_def Let_def n d split: option.splits prod.splits)
qed

lemma match_occupation_info_nth:
  assumes "i < length bs"
  shows "match_occupation_info U bs ! i = match_at U i bs ! i"
proof -
  have s: "[0..<length bs] = [0..<i] @ i # [Suc i..<length bs]"
    using assms by (metis le0 upt_add_eq_append upt_conv_Cons le_add_diff_inverse less_imp_le_nat)
  let ?bs1 = "fold (match_at U) [0..<i] bs"
  have d: "drop i ?bs1 = drop i bs" by (simp add: drop_fold_prefix)
  have "match_occupation_info U bs ! i = fold (match_at U) [Suc i..<length bs] (match_at U i ?bs1) ! i"
    unfolding match_occupation_info_def by (subst s) simp
  also have "\<dots> = match_at U i ?bs1 ! i"
    by (rule fold_suffix_nth) simp
  also have "\<dots> = match_at U i bs ! i"
    using d assms by (rule match_at_depends)
  finally show ?thesis .
qed

lemma scan_candidates_find:
  "scan_candidates U b cs =
     map_option (\<lambda>c. (block_text c, if same_row b c then 9 / 10 else 7 / 10))
       (find (\<lambda>c. is_occupation_name U (block_text c) \<and> (same_row b c \<or> next_row b c)) cs)"
  by (induction cs) auto

text \<open>
  Claim C3, as amended. For every coded block \<open>i\<close> the association makes one scan over
  the blocks \<open>i+1 .. i+4\<close> and takes the first candidate that passes the label predicate
  and is either on the same row or on the next row; the coded block gets that candidate's
  text as occupation name, with confidence exactly 0.9 when the candidate is on the same
  row and exactly 0.7 otherwise. When no candidate among the next four qualifies, the
  coded block is left as it was (occupation name and confidence stay unset).
\<close>

theorem match_first_qualifying:
  assumes "i < length blocks"
    and "occupation_code (blocks ! i) = Some code" and "code \<noteq> []"
  shows "match_occupation_info U blocks ! i =
     (case find (\<lambda>c. is_occupation_name U (block_text c) \<and>
                      (same_row (blocks ! i) c \<or> next_row (blocks ! i) c))
             (take 4 (drop (Suc i) blocks)) of
        None \<Rightarrow> blocks ! i
      | Some c \<Rightarrow> (blocks ! i)\<lparr>occupation_name := Some (block_text c),
                     confidence := Some (if same_row (blocks ! i) c then 9 / 10 else 7 / 10)\<rparr>)"
  unfolding match_occupation_info_nth[OF assms(1)]
  using assms by (simp add: match_at_def scan_candidates_find split: option.splits)

lemmas ex_blocks_defs = coded_block_def below_block_def beside_block_def ex_block_def

lemma is_name_below: "is_occupation_name ascii_tables [24037, 20154]"
  by (simp add: is_occupation_name_def matches_code_like_def code_class_def ascii_tables_def job_keywords_def)

lemma is_name_beside: "is_occupation_name ascii_tables [25945, 24072]"
  by (simp add: is_occupation_name_def matches_code_like_def code_class_def ascii_tables_def job_keywords_def)

text \<open>
  Claim C3 as stated gives a same-row candidate priority over every next-row candidate.
  The code does not: a coded block followed by a qualifying next-row block and then by a
  qualifying same-row block gets the next-row block's text and confidence 0.7.
\<close>

theorem match_same_row_priority_counterexample:
  "same_row coded_block beside_block \<and>
   is_occupation_name ascii_tables (block_text beside_block) \<and>
   \<not> same_row coded_block below_block \<and>
   match_occupation_info ascii_tables [coded_block, below_block, beside_block] ! 0 =
     coded_block\<lparr>occupation_name := Some (block_text below_block), confidence := Some (7 / 10)\<rparr>"
  by (simp add: match_occupation_info_def match_at_def same_row_def next_row_def ex_blocks_defs
      is_name_below is_name_beside upt_rec)

theorem match_first_qualifying_witness:
  "(0::nat) < length [coded_block, beside_block, below_block] \<and>
   occupation_code ([coded_block, beside_block, below_block] ! 0) =
     Some [49, 45, 48, 49, 45, 48, 49, 45, 48, 49] \<and>
   match_occupation_info ascii_tables [coded_block, beside_block, below_block] ! 0 =
     coded_block\<lparr>occupation_name := Some (block_text beside_block), confidence := Some (9 / 10)\<rparr>"
proof -
  have a: "(0::nat) < length [coded_block, beside_block, below_block]" by simp
  have b: "occupation_code ([coded_block, beside_block, below_block] ! 0) =
     Some [49, 45, 48, 49, 45, 48, 49, 45, 48, 49]" by (simp add: coded_block_def)
  have c: "[49, 45, 48, 49, 45, 48, 49, 45, 48, 49] \<noteq> ([]::nat list)" by simp
  show ?thesis
    using match_first_qualifying [OF a b c, of ascii_tables] a b
    by (simp add: same_row_def next_row_def ex_blocks_defs is_name_below is_name_beside)
qed

section \<open>Properties of the table heuristic\<close>

lemma counter_add_keys: "fst ` set (counter_add k c) = insert k (fst ` set c)"
  by (induction k c rule: counter_add.induct) auto

lemma counter_add_distinct: "distinct (map fst c) \<Longrightarrow> distinct (map fst (counter_add k c))"
  by (induction k c rule: counter_add.induct) (auto simp: counter_add_keys)

lemma counter_add_map_of:
  "map_of (counter_add k c) k' =
     (if k' = k then Some (case map_of c k of None \<Rightarrow> 1 | Some n \<Rightarrow> n + 1) else map_of c k')"
  by (induction k c rule: counter_add.induct) auto

lemma fold_counter_distinct:
  "distinct (map fst c) \<Longrightarrow> distinct (map fst (fold counter_add xs c))"
  by (induction xs arbitrary: c) (simp_all add: counter_add_distinct)

lemma fold_counter_map_of:
  "map_of (fold counter_add xs c) k =
     (if k \<in> set xs \<or> k \<in> set (map fst c)
      then Some (count_list xs k + (case map_of c k of None \<Rightarrow> 0 | Some n \<Rightarrow> n))
      else None)"
proof (induction xs arbitrary: c)
  case Nil
  then show ?case by (auto simp: map_of_eq_None_iff split: option.splits)
next
  case (Cons x xs)
  show ?case
    by (auto simp: Cons.IH counter_add_map_of counter_add_keys split: option.splits)
qed

lemma py_counter_set:
  "set (py_counter xs) = {(k, count_list xs k) | k. k \<in> set xs}"
proof -
  have d: "distinct (map fst (py_counter xs))"
    unfolding py_counter_def by (rule fold_counter_distinct) simp
  have m: "\<And>k. map_of (py_counter xs) k = (if k \<in> set xs then Some (count_list xs k) else None)"
    unfolding py_counter_def by (simp add: fold_counter_map_of)
  show ?thesis
  proof (rule set_eqI)
    fix p :: "'a \<times> nat"
    obtain k n where p: "p = (k, n)" by (cases p)
    have "(k, n) \<in> set (py_counter xs) \<longleftrightarrow> map_of (py_counter xs) k = Some n"
      using d by simp
    then show "p \<in> set (py_counter xs) \<longleftrightarrow> p \<in> {(k, count_list xs k) | k. k \<in> set xs}"
      unfolding p m by auto
  qed
qed

lemma py_counter_has_group:
  "list_ex (\<lambda>count. count \<ge> 3) (map snd (py_counter xs)) \<longleftrightarrow> (\<exists>k. count_list xs k \<ge> 3)"
proof -
  have "list_ex (\<lambda>count. count \<ge> 3) (map snd (py_counter xs)) \<longleftrightarrow>
        (\<exists>p \<in> set (py_counter xs). snd p \<ge> 3)"
    by (simp add: list_ex_iff)
  also have "\<dots> \<longleftrightarrow> (\<exists>k \<in> set xs. count_list xs k \<ge> 3)"
    unfolding py_counter_set by auto
  also have "\<dots> \<longleftrightarrow> (\<exists>k. count_list xs k \<ge> 3)"
    by (metis count_list_0_iff not_numeral_le_zero)
  finally show ?thesis .
qed

text \<open>
  Claim C4, as amended. The heuristic rounds each block's top y to one decimal and groups
  the blocks by the rounded value; the page reports 1 table if and only if it has more
  than three blocks and some group holds at least three of them, and 0 tables otherwise.
\<close>

theorem detect_tables_guarded:
  "detect_tables text_blocks =
     (if length text_blocks > 3 \<and>
         (\<exists>y. count_list (map (\<lambda>b. py_round1 (pb_y0 b)) text_blocks) y \<ge> 3)
      then 1 else 0)"
  by (simp add: detect_tables_def Let_def py_counter_has_group comp_def)

lemma py_round1_100: "py_round1 100 = 100"
  by (simp add: py_round1_def round_half_even_def)

lemma py_round1_300: "py_round1 300 = 300"
  by (simp add: py_round1_def round_half_even_def)

text \<open>
  Claim C4 as stated fails on a page of exactly three blocks that share their top y: the
  group has three blocks and the page reports 0 tables, because the heuristic only runs
  on pages with more than three blocks.
\<close>

theorem detect_tables_three_blocks_counterexample:
  "count_list (map (\<lambda>b. py_round1 (pb_y0 b))
       [ex_page_block, ex_page_block\<lparr>pb_x0 := 200\<rparr>, ex_page_block\<lparr>pb_x0 := 350\<rparr>])
     (py_round1 100) = 3 \<and>
   detect_tables [ex_page_block, ex_page_block\<lparr>pb_x0 := 200\<rparr>, ex_page_block\<lparr>pb_x0 := 350\<rparr>] = 0"
  by (simp add: detect_tables_def ex_page_block_def)

theorem detect_tables_guarded_witness:
  "detect_tables [ex_page_block, ex_page_block\<lparr>pb_x0 := 200\<rparr>, ex_page_block\<lparr>pb_x0 := 350\<rparr>,
     ex_page_block\<lparr>pb_y0 := 300\<rparr>] = 1"
  using detect_tables_guarded [of "[ex_page_block, ex_page_block\<lparr>pb_x0 := 200\<rparr>,
     ex_page_block\<lparr>pb_x0 := 350\<rparr>, ex_page_block\<lparr>pb_y0 := 300\<rparr>]"]
  by (simp add: ex_page_block_def py_round1_100 py_round1_300 exI[of _ 100])

section \<open>Properties of the validation levels\<close>

text \<open>
  Claim C5. The claim asks for the page texts joined by the newline character (code
  point 10). On a document of two pages with the texts "a" and "b" the standard
  validation returns the four characters a, backslash, n, b, not the three characters
  a, newline, b: the separator literal of the source is an escaped backslash followed
  by n. (The block-extraction path joins its page texts with a real newline.)
\<close>

theorem standard_validation_joins_with_backslash_n:
  "result_text (standard_validation ascii_tables ex_two_pages) = [97, 92, 110, 98] \<and>
   result_text (standard_validation ascii_tables ex_two_pages) \<noteq> [97, 10, 98]"
  by (simp add: standard_validation_def ex_two_pages_def ex_page_def join_separator_def Let_def)

text \<open>
  When the file system answers the queries on the path, the failures of a missing file,
  a path that is no regular file, an empty or oversized file, an unknown validation type
  and a document that cannot be opened make the body of the \<open>try\<close> statement raise, and
  \<open>validate_pdf\<close> returns a result that is marked invalid and carries an error.
\<close>

lemma validate_pdf_try_fails:
  assumes "file_system env file_path = Inr None \<or>
       (\<exists>info. file_system env file_path = Inr (Some info) \<and>
          (\<not> is_regular info \<or> st_size info = 0 \<or> st_size info > max_file_size env)) \<or>
       vtype \<notin> {type_standard, type_enhanced, type_strict} \<or>
       (\<forall>doc. fitz_open env file_path \<noteq> Opened doc) \<or>
       (\<exists>doc. fitz_open env file_path = Opened doc \<and> doc_encrypted doc \<and> \<not> doc_authenticates doc)"
  shows "\<exists>e. validate_pdf_try env file_path vtype = Inl e"
  using assms
  by (auto simp: validate_pdf_try_def validate_file_basic_def open_pdf_document_def Let_def
      split: option.splits sum.splits open_outcome.splits)

lemma validate_pdf_result_when_stat_answers:
  assumes "file_system env file_path = Inr found"
  shows "\<exists>r. validate_pdf env file_path vtype metadata = Inr r \<and>
     (found = None \<or>
       (\<exists>info. found = Some info \<and>
          (\<not> is_regular info \<or> st_size info = 0 \<or> st_size info > max_file_size env)) \<or>
       vtype \<notin> {type_standard, type_enhanced, type_strict} \<or>
       (\<forall>doc. fitz_open env file_path \<noteq> Opened doc) \<or>
       (\<exists>doc. fitz_open env file_path = Opened doc \<and> doc_encrypted doc \<and> \<not> doc_authenticates doc)
      \<longrightarrow> \<not> is_valid r \<and> errors r \<noteq> [])"
proof (cases "validate_pdf_try env file_path vtype")
  case (Inl e)
  then show ?thesis using assms by (simp add: validate_pdf_def)
next
  case (Inr r)
  then show ?thesis using validate_pdf_try_fails[of env file_path vtype] assms
    by (auto simp: validate_pdf_def)
qed

text \<open>
  Claim C10. The claim asks that \<open>validate_pdf\<close> returns a result dictionary for every
  file path and never lets an exception out. For a path whose name is too long for the
  file system, the first check in the \<open>try\<close> body raises an \<open>OSError\<close>; the handler catches
  it, asks the file system about the same path again while it builds the failure
  dictionary, and that second \<open>OSError\<close> leaves \<open>validate_pdf\<close>: no dictionary is returned.
\<close>

theorem validate_pdf_propagates_oserror:
  "length ex_long_path = 305 \<and>
   validate_pdf_try ex_long_name_env ex_long_path type_standard = Inl (OSError msg_name_too_long) \<and>
   validate_pdf ex_long_name_env ex_long_path type_standard () = Inl (OSError msg_name_too_long)"
  by (simp add: validate_pdf_def validate_pdf_try_def validate_file_basic_def
      ex_long_name_env_def ex_long_path_def)

section \<open>Properties of the snapshot records\<close>

lemma snapshot_loop_committed:
  "committed (snd (snapshot_loop tid dpi th pages n s acc)) = committed s"
  by (induction pages arbitrary: n s acc) (auto simp: db_add_def split: sum.splits)

lemma snapshot_loop_fails:
  assumes "\<exists>i < length pages. \<exists>e. extract_single_page tid (pages ! i) (n + i) dpi th = Inl e"
  shows "\<exists>e. fst (snapshot_loop tid dpi th pages n s acc) = Inl e"
  using assms
proof (induction pages arbitrary: n s acc)
  case Nil
  then show ?case by simp
next
  case (Cons p ps)
  show ?case
  proof (cases "extract_single_page tid p n dpi th")
    case (Inl e)
    then show ?thesis by simp
  next
    case (Inr info)
    from Cons.prems obtain i e where i: "i < length (p # ps)"
      "extract_single_page tid ((p # ps) ! i) (n + i) dpi th = Inl e" by blast
    with Inr obtain j where j: "i = Suc j" by (cases i) auto
    with i have "\<exists>j < length ps. \<exists>e. extract_single_page tid (ps ! j) (Suc n + j) dpi th = Inl e"
      by auto
    from Cons.IH[OF this] show ?thesis using Inr by simp
  qed
qed

lemma snapshot_loop_succeeds:
  assumes "\<forall>i < length pages. \<exists>info. extract_single_page tid (pages ! i) (n + i) dpi th = Inr info"
  shows "\<exists>infos. snapshot_loop tid dpi th pages n s acc =
           (Inr infos, s\<lparr>pending := pending s @
              map (\<lambda>i. page_row tid dpi th (n + i) (pages ! i)) [0..<length pages]\<rparr>) \<and>
           length infos = length acc + length pages"
  using assms
proof (induction pages arbitrary: n s acc)
  case Nil
  then show ?case by simp
next
  case (Cons p ps)
  from Cons.prems[rule_format, of 0] obtain info where
    info: "extract_single_page tid p n dpi th = Inr info" by auto
  have "\<forall>i < length ps. \<exists>info. extract_single_page tid (ps ! i) (Suc n + i) dpi th = Inr info"
    using Cons.prems[rule_format, of "Suc _"] by auto
  from Cons.IH[OF this] obtain infos where
    ih: "snapshot_loop tid dpi th ps (Suc n)
           (db_add \<lparr>snap_task_id = tid, snap_page_num = n + 1, snap_dpi = dpi, snap_info = info\<rparr> s)
           (acc @ [info]) =
         (Inr infos,
          (db_add \<lparr>snap_task_id = tid, snap_page_num = n + 1, snap_dpi = dpi, snap_info = info\<rparr> s)
            \<lparr>pending := pending (db_add \<lparr>snap_task_id = tid, snap_page_num = n + 1, snap_dpi = dpi,
                                          snap_info = info\<rparr> s) @
              map (\<lambda>i. page_row tid dpi th (Suc n + i) (ps ! i)) [0..<length ps]\<rparr>)"
      "length infos = length (acc @ [info]) + length ps"
    by blast
  have m: "map (\<lambda>i. page_row tid dpi th (n + i) ((p # ps) ! i)) [0..<length (p # ps)] =
        page_row tid dpi th n p # map (\<lambda>i. page_row tid dpi th (Suc n + i) (ps ! i)) [0..<length ps]"
  proof -
    have e: "[0..<length (p # ps)] = 0 # map Suc [0..<length ps]"
      by (simp add: upt_conv_Cons map_Suc_upt del: upt_Suc)
    show ?thesis by (subst e) (simp add: comp_def)
  qed
  have r: "page_row tid dpi th n p =
        \<lparr>snap_task_id = tid, snap_page_num = n + 1, snap_dpi = dpi, snap_info = info\<rparr>"
    by (simp add: page_row_def info)
  show ?case
    unfolding m r using ih info by (simp add: db_add_def)
qed

text \<open>
  Claim C9. The snapshot rows of one task are committed in one batch: when the snapshot of
  some page cannot be created or stored, \<open>extract_page_snapshots\<close> raises and the snapshot
  table is exactly what it was before the call, so none of the rows added for the earlier
  pages is persisted (a table without rows of the task still has none); when every page
  succeeds, the table grows by exactly one row per page, all of the task, numbered from 1.
\<close>

theorem snapshot_records_atomic:
  "((\<exists>i < length (doc_pages doc). \<exists>e.
        extract_single_page tid (doc_pages doc ! i) i (case dpi_arg of None \<Rightarrow> 150 | Some d \<Rightarrow> d) th = Inl e) \<longrightarrow>
      (\<exists>e. extract_page_snapshots tid doc dpi_arg th rows = (Inl e, rows))) \<and>
   ((\<forall>i < length (doc_pages doc). \<exists>info.
        extract_single_page tid (doc_pages doc ! i) i (case dpi_arg of None \<Rightarrow> 150 | Some d \<Rightarrow> d) th = Inr info) \<longrightarrow>
      (\<exists>infos new_rows.
         extract_page_snapshots tid doc dpi_arg th rows = (Inr infos, rows @ new_rows) \<and>
         length new_rows = length (doc_pages doc) \<and> length infos = length (doc_pages doc) \<and>
         (\<forall>r \<in> set new_rows. snap_task_id r = tid) \<and>
         map snap_page_num new_rows = [1..<Suc (length (doc_pages doc))]))"
proof -
  let ?d = "(case dpi_arg of None \<Rightarrow> 150 | Some d \<Rightarrow> d)"
  show ?thesis
  proof (intro conjI impI)
  assume a: "\<exists>i < length (doc_pages doc). \<exists>e.
        extract_single_page tid (doc_pages doc ! i) i ?d th = Inl e"
  then have "\<exists>i < length (doc_pages doc). \<exists>e.
        extract_single_page tid (doc_pages doc ! i) (0 + i) ?d th = Inl e" by simp
  from snapshot_loop_fails[OF this] obtain e where
    e: "fst (snapshot_loop tid ?d th (doc_pages doc) 0 (db_open rows) []) = Inl e" by blast
  have c: "committed (snd (snapshot_loop tid ?d th (doc_pages doc) 0 (db_open rows) [])) = rows"
    by (simp add: snapshot_loop_committed db_open_def)
  obtain x s where xs: "snapshot_loop tid ?d th (doc_pages doc) 0 (db_open rows) [] = (x, s)"
    by (cases "snapshot_loop tid ?d th (doc_pages doc) 0 (db_open rows) []")
  show "\<exists>e. extract_page_snapshots tid doc dpi_arg th rows = (Inl e, rows)"
    using e c xs by (simp add: extract_page_snapshots_def db_rollback_def)
next
  assume a: "\<forall>i < length (doc_pages doc). \<exists>info.
        extract_single_page tid (doc_pages doc ! i) i ?d th = Inr info"
  then have "\<forall>i < length (doc_pages doc). \<exists>info.
        extract_single_page tid (doc_pages doc ! i) (0 + i) ?d th = Inr info" by simp
  from snapshot_loop_succeeds[OF this, of "db_open rows" "[]"] obtain infos where
    l: "snapshot_loop tid ?d th (doc_pages doc) 0 (db_open rows) [] =
          (Inr infos, (db_open rows)\<lparr>pending := pending (db_open rows) @
              map (\<lambda>i. page_row tid ?d th (0 + i) (doc_pages doc ! i)) [0..<length (doc_pages doc)]\<rparr>)"
    and n: "length infos = length ([]::snapshot_info list) + length (doc_pages doc)" by blast
  let ?new = "map (\<lambda>i. page_row tid ?d th i (doc_pages doc ! i)) [0..<length (doc_pages doc)]"
  have 1: "extract_page_snapshots tid doc dpi_arg th rows = (Inr infos, rows @ ?new)"
    using l by (simp add: extract_page_snapshots_def db_commit_def db_open_def)
  have 2: "\<forall>r \<in> set ?new. snap_task_id r = tid" by (auto simp: page_row_def)
  have 3: "map snap_page_num ?new = [1..<Suc (length (doc_pages doc))]"
    by (simp add: page_row_def comp_def map_Suc_upt)
  show "\<exists>infos new_rows.
         extract_page_snapshots tid doc dpi_arg th rows = (Inr infos, rows @ new_rows) \<and>
         length new_rows = length (doc_pages doc) \<and> length infos = length (doc_pages doc) \<and>
         (\<forall>r \<in> set new_rows. snap_task_id r = tid) \<and>
         map snap_page_num new_rows = [1..<Suc (length (doc_pages doc))]"
    using 1 2 3 n by (intro exI[of _ infos] exI[of _ ?new]) simp
qed
qed

theorem snapshot_records_atomic_witness:
  "(\<exists>i < length (doc_pages ex_failing_doc). \<exists>e.
      extract_single_page [116] (doc_pages ex_failing_doc ! i) i 150 True = Inl e) \<and>
   (\<exists>e. extract_page_snapshots [116] ex_failing_doc None True [] = (Inl e, [])) \<and>
   length (doc_pages ex_two_pages) = 2 \<and>
   (\<exists>info. extract_single_page [116] (doc_pages ex_two_pages ! 0) 0 150 True = Inr info) \<and>
   (\<exists>info. extract_single_page [116] (doc_pages ex_two_pages ! 1) 1 150 True = Inr info) \<and>
   (\<exists>infos new_rows.
      extract_page_snapshots [116] ex_two_pages None True [] = (Inr infos, new_rows) \<and>
      map snap_page_num new_rows = [1, 2])"
proof -
  have f: "\<exists>i < length (doc_pages ex_failing_doc). \<exists>e.
      extract_single_page [116] (doc_pages ex_failing_doc ! i) i 150 True = Inl e"
    by (intro exI[of _ 1])
      (simp add: ex_failing_doc_def ex_two_pages_def ex_page_def extract_single_page_def)
  have g: "\<forall>i < length (doc_pages ex_two_pages). \<exists>info.
      extract_single_page [116] (doc_pages ex_two_pages ! i) i 150 True = Inr info"
    by (simp add: ex_two_pages_def ex_page_def extract_single_page_def detect_layout_def
        less_Suc_eq all_conj_distrib)
  from snapshot_records_atomic [where doc = ex_failing_doc and tid = "[116]" and th = True and rows = "[]" and dpi_arg = None, unfolded option.case] f
  have 1: "\<exists>e. extract_page_snapshots [116] ex_failing_doc None True [] = (Inl e, [])"
    by blast
  from snapshot_records_atomic [where doc = ex_two_pages and tid = "[116]" and th = True and rows = "[]" and dpi_arg = None, unfolded option.case] g
  have 2: "\<exists>infos new_rows.
      extract_page_snapshots [116] ex_two_pages None True [] = (Inr infos, new_rows) \<and>
      map snap_page_num new_rows = [1, 2]"
    by (auto simp: ex_two_pages_def upt_rec)
  have l: "length (doc_pages ex_two_pages) = 2" by (simp add: ex_two_pages_def)
  from g l have g0: "\<exists>info. extract_single_page [116] (doc_pages ex_two_pages ! 0) 0 150 True = Inr info"
    and g1: "\<exists>info. extract_single_page [116] (doc_pages ex_two_pages ! 1) 1 150 True = Inr info"
    by simp_all
  from f 1 l g0 g1 2 show ?thesis by (intro conjI)
qed

section \<open>Properties of the block extraction\<close>

lemma extract_blocks_loop_fails:
  assumes "\<exists>p \<in> set pages. page_load_fault p \<noteq> None \<or> (\<exists>e. page_blocks p = Inl e) \<or>
             (\<exists>e. page_text p = Inl e)"
  shows "\<exists>e. extract_blocks_loop env pages a b c = Inl e"
  using assms
proof (induction pages arbitrary: a b c)
  case Nil
  then show ?case by simp
next
  case (Cons q qs)
  show ?case
  proof (cases "page_load_fault q \<noteq> None \<or> (\<exists>e. page_blocks q = Inl e) \<or>
                (\<exists>e. page_text q = Inl e)")
    case True
    then show ?thesis by (auto split: option.splits sum.splits)
  next
    case False
    with Cons.prems have "\<exists>p \<in> set qs. page_load_fault p \<noteq> None \<or>
        (\<exists>e. page_blocks p = Inl e) \<or> (\<exists>e. page_text p = Inl e)" by auto
    from Cons.IH[OF this] show ?thesis
      by (simp split: option.splits sum.splits)
  qed
qed

lemma process_pdf_with_blocks_fails:
  assumes "(\<forall>doc. fitz_open env path \<noteq> Opened doc) \<or>
     (\<exists>doc. fitz_open env path = Opened doc \<and>
        (\<exists>p \<in> set (doc_pages doc). page_load_fault p \<noteq> None \<or> (\<exists>e. page_blocks p = Inl e) \<or>
             (\<exists>e. page_text p = Inl e)))"
  shows "\<exists>m. process_pdf_with_blocks env tid path save snaps db = (Inl (PDFValidationError m), db)"
proof (cases "fitz_open env path")
  case (FileDataError m)
  then show ?thesis
    by (simp add: process_pdf_with_blocks_def process_pdf_with_blocks_try_def)
next
  case (OpenException m)
  then show ?thesis
    by (simp add: process_pdf_with_blocks_def process_pdf_with_blocks_try_def)
next
  case (Opened doc)
  with assms have "\<exists>p \<in> set (doc_pages doc). page_load_fault p \<noteq> None \<or>
      (\<exists>e. page_blocks p = Inl e) \<or> (\<exists>e. page_text p = Inl e)" by auto
  from extract_blocks_loop_fails[OF this, of env "[]" "[]" "[]"]
  obtain e where "extract_blocks_loop env (doc_pages doc) [] [] [] = Inl e" by blast
  with Opened show ?thesis
    by (simp add: process_pdf_with_blocks_def process_pdf_with_blocks_try_def)
qed

lemma worker_completes_when_extraction_fails:
  assumes "db_tasks db tid = Some task" and "resolve_path env p = Inr path"
    and "process_pdf_with_blocks env tid path True True (db\<lparr>db_tasks := (db_tasks db)(tid \<mapsto>
            task\<lparr>status := Processing, started_at := Some (clock_start env)\<rparr>)\<rparr>) = (x, db\<lparr>db_tasks := (db_tasks db)(tid \<mapsto>
            task\<lparr>status := Processing, started_at := Some (clock_start env)\<rparr>)\<rparr>)"
  shows "\<exists>r db'. process_validation_task env tid p vtype md db = (Inr r, db') \<and>
           db_blocks db' = db_blocks db \<and>
           (\<exists>t. db_tasks db' tid = Some t \<and> status t = Completed)"
  using assms by (simp add: process_validation_task_def Let_def)

text \<open>
  Claim C1, as amended. When the source document cannot be opened or any page fails
  while its blocks or its text are read, the block extraction fails as a whole: it
  raises a \<open>PDFValidationError\<close> and leaves the database as it was, so no block of the
  document is saved. The task itself is not aborted: the worker drops the exception
  with a warning, and a task that was found and whose file was resolved ends as
  completed, with the block table unchanged.
\<close>

theorem block_extraction_all_or_nothing:
  assumes "(\<forall>doc. fitz_open env path \<noteq> Opened doc) \<or>
     (\<exists>doc. fitz_open env path = Opened doc \<and>
        (\<exists>p \<in> set (doc_pages doc). page_load_fault p \<noteq> None \<or> (\<exists>e. page_blocks p = Inl e) \<or>
             (\<exists>e. page_text p = Inl e)))"
  shows "(\<exists>m. process_pdf_with_blocks env tid path True True db = (Inl (PDFValidationError m), db)) \<and>
         (\<forall>task p. db_tasks db tid = Some task \<and> resolve_path env p = Inr path \<longrightarrow>
            (\<exists>r db'. process_validation_task env tid p vtype md db = (Inr r, db') \<and>
               db_blocks db' = db_blocks db \<and>
               (\<exists>t. db_tasks db' tid = Some t \<and> status t = Completed)))"
proof (intro conjI allI impI)
  show "\<exists>m. process_pdf_with_blocks env tid path True True db = (Inl (PDFValidationError m), db)"
    using assms by (rule process_pdf_with_blocks_fails)
next
  fix task p
  assume a: "db_tasks db tid = Some task \<and> resolve_path env p = Inr path"
  let ?db1 = "db\<lparr>db_tasks := (db_tasks db)(tid \<mapsto>
            task\<lparr>status := Processing, started_at := Some (clock_start env)\<rparr>)\<rparr>"
  from process_pdf_with_blocks_fails[OF assms, of tid True True ?db1]
  obtain m where "process_pdf_with_blocks env tid path True True ?db1 = (Inl (PDFValidationError m), ?db1)"
    by blast
  with a show "\<exists>r db'. process_validation_task env tid p vtype md db = (Inr r, db') \<and>
               db_blocks db' = db_blocks db \<and>
               (\<exists>t. db_tasks db' tid = Some t \<and> status t = Completed)"
    by (intro worker_completes_when_extraction_fails) auto
qed

lemma ex_bad_env_fails:
  "(\<forall>doc. fitz_open ex_bad_env [47, 120] \<noteq> Opened doc) \<or>
     (\<exists>doc. fitz_open ex_bad_env [47, 120] = Opened doc \<and>
        (\<exists>p \<in> set (doc_pages doc). page_load_fault p \<noteq> None \<or> (\<exists>e. page_blocks p = Inl e) \<or>
             (\<exists>e. page_text p = Inl e)))"
  by (simp add: ex_bad_env_def ex_empty_env_def ex_bad_doc_def ex_two_pages_def)

lemma ex_bad_env_resolves: "resolve_path ex_bad_env [47, 120] = Inr [47, 120]"
  by (simp add: resolve_path_def is_local_path_def ex_bad_env_def ex_empty_env_def)

lemma ex_db_task: "db_tasks ex_db [116] = Some ex_task"
  by (simp add: ex_db_def)

text \<open>
  Claim C1 as stated says that the whole task aborts. On a document whose second page
  cannot be read into blocks, the task ends with status completed, not failed.
\<close>

theorem task_not_aborted_counterexample:
  "(\<exists>e. page_blocks (doc_pages ex_bad_doc ! 1) = Inl e) \<and>
   fitz_open ex_bad_env [47, 120] = Opened ex_bad_doc \<and>
   (\<exists>r db'. process_validation_task ex_bad_env [116] [47, 120] type_standard () ex_db = (Inr r, db') \<and>
      (\<exists>t. db_tasks db' [116] = Some t \<and> status t = Completed \<and> status t \<noteq> Failed))"
proof -
  let ?db1 = "ex_db\<lparr>db_tasks := (db_tasks ex_db)([116] \<mapsto>
            ex_task\<lparr>status := Processing, started_at := Some (clock_start ex_bad_env)\<rparr>)\<rparr>"
  from process_pdf_with_blocks_fails[OF ex_bad_env_fails, of "[116]" True True ?db1]
  obtain m where "process_pdf_with_blocks ex_bad_env [116] [47, 120] True True ?db1 =
      (Inl (PDFValidationError m), ?db1)" by blast
  from worker_completes_when_extraction_fails[OF ex_db_task ex_bad_env_resolves this, of type_standard "()"]
  have "\<exists>r db'. process_validation_task ex_bad_env [116] [47, 120] type_standard () ex_db = (Inr r, db') \<and>
      (\<exists>t. db_tasks db' [116] = Some t \<and> status t = Completed \<and> status t \<noteq> Failed)"
    by auto
  moreover have "\<exists>e. page_blocks (doc_pages ex_bad_doc ! 1) = Inl e"
    by (simp add: ex_bad_doc_def)
  moreover have "fitz_open ex_bad_env [47, 120] = Opened ex_bad_doc"
    by (simp add: ex_bad_env_def)
  ultimately show ?thesis by (intro conjI)
qed

theorem block_extraction_all_or_nothing_witness:
  "fitz_open ex_bad_env [47, 120] = Opened ex_bad_doc \<and>
   (\<exists>e. page_blocks (doc_pages ex_bad_doc ! 1) = Inl e) \<and>
   db_tasks ex_db [116] = Some ex_task \<and> resolve_path ex_bad_env [47, 120] = Inr [47, 120] \<and>
   (\<exists>m. process_pdf_with_blocks ex_bad_env [116] [47, 120] True True ex_db =
      (Inl (PDFValidationError m), ex_db)) \<and>
   (\<exists>r db'. process_validation_task ex_bad_env [116] [47, 120] type_standard () ex_db = (Inr r, db') \<and>
      db_blocks db' = [])"
proof -
  note t = block_extraction_all_or_nothing [OF ex_bad_env_fails, of "[116]" ex_db type_standard "()"]
  from t have 1: "\<exists>m. process_pdf_with_blocks ex_bad_env [116] [47, 120] True True ex_db =
      (Inl (PDFValidationError m), ex_db)" by (rule conjunct1)
  from t ex_db_task ex_bad_env_resolves
  have "\<exists>r db'. process_validation_task ex_bad_env [116] [47, 120] type_standard () ex_db = (Inr r, db') \<and>
      db_blocks db' = db_blocks ex_db \<and> (\<exists>t. db_tasks db' [116] = Some t \<and> status t = Completed)"
    by blast
  then have 2: "\<exists>r db'. process_validation_task ex_bad_env [116] [47, 120] type_standard () ex_db = (Inr r, db') \<and>
      db_blocks db' = []" by (auto simp: ex_db_def)
  have 3: "\<exists>e. page_blocks (doc_pages ex_bad_doc ! 1) = Inl e" by (simp add: ex_bad_doc_def)
  have 4: "fitz_open ex_bad_env [47, 120] = Opened ex_bad_doc" by (simp add: ex_bad_env_def)
  from 4 3 ex_db_task ex_bad_env_resolves 1 2 show ?thesis by (intro conjI)
qed

section \<open>Properties of the task lifecycle\<close>

text \<open>
  The block extraction writes only to the block and snapshot tables: the task table and
  the result table are as before, whether it returns or raises.
\<close>

lemma process_pdf_with_blocks_keeps:
  "db_results (snd (process_pdf_with_blocks env tid path save snaps db)) = db_results db \<and>
   db_tasks (snd (process_pdf_with_blocks env tid path save snaps db)) = db_tasks db"
  by (simp add: process_pdf_with_blocks_def process_pdf_with_blocks_try_def snapshot_step_def
      save_blocks_to_db_def Let_def split: open_outcome.splits sum.splits prod.splits)

text \<open>
  For a task that is in the database, an attempt raises exactly when its file cannot be
  resolved (a missing local file, a file-system error or a failed download): the
  validation and the block extraction do not raise into the worker. A failing attempt
  adds no result row.
\<close>

lemma attempt_raises_iff:
  assumes "db_tasks db tid = Some task"
  shows "(\<exists>e. fst (process_validation_task env tid p vt md db) = Inl e) \<longleftrightarrow>
         (\<exists>e. resolve_path env p = Inl e)"
  using assms by (cases "resolve_path env p") (simp_all add: process_validation_task_def Let_def)

lemma attempt_fails:
  assumes "db_tasks db tid = Some task" and "resolve_path env p = Inl e"
  shows "\<exists>db' t. validate_pdf_task M r env tid p vt md db = (Inl e, db') \<and>
           db_tasks db' tid = Some t \<and> status t = Failed \<and>
           completed_at t = Some (clock_end env) \<and>
           error_message t =
             Some (if r \<ge> M then msg_max_retries @ str_of_error e else str_of_error e) \<and>
           db_results db' = db_results db"
  using assms by (simp add: validate_pdf_task_def process_validation_task_def Let_def)

text \<open>
  The result that the worker works with is the dictionary returned by \<open>validate_pdf\<close>, or
  the failure dictionary built from the exception that \<open>validate_pdf\<close> raises.
\<close>

lemma validate_pdf_file_result:
  "(case validate_pdf env tmp vt md of
      Inr r \<Rightarrow> validate_pdf_file env tmp vt md = r
    | Inl e \<Rightarrow> \<not> is_valid (validate_pdf_file env tmp vt md) \<and>
        errors (validate_pdf_file env tmp vt md) = [msg_validation_failed @ str_of_error e] \<and>
        warnings (validate_pdf_file env tmp vt md) = [] \<and>
        page_count (validate_pdf_file env tmp vt md) = 0 \<and>
        result_text (validate_pdf_file env tmp vt md) = [] \<and>
        result_metadata (validate_pdf_file env tmp vt md) = [] \<and>
        file_size (validate_pdf_file env tmp vt md) = 0)"
  by (simp add: validate_pdf_file_def split: sum.splits)

lemma attempt_succeeds:
  assumes "db_tasks db tid = Some task" and "resolve_path env p = Inr tmp"
  shows "\<exists>db' t res. validate_pdf_task M r env tid p vt md db = (Inr res, db') \<and>
           db_tasks db' tid = Some t \<and> status t = Completed \<and>
           completed_at t = Some (clock_end env) \<and>
           task_summary t =
             Some \<lparr>rs_is_valid = is_valid res, rs_page_count = page_count res,
                   rs_text_length = length (result_text res),
                   rs_has_errors = (errors res \<noteq> [])\<rparr> \<and>
           db_results db' = db_results db @
             [\<lparr>rr_task_id = tid, rr_pdf_path = p, rr_validation_type = vt, rr_result = res\<rparr>] \<and>
           (case validate_pdf env tmp vt md of
              Inr r \<Rightarrow> res = r
            | Inl e \<Rightarrow> \<not> is_valid res \<and>
                errors res = [msg_validation_failed @ str_of_error e] \<and> warnings res = [] \<and>
                page_count res = 0 \<and> result_text res = [] \<and> result_metadata res = [] \<and>
                file_size res = 0)"
  using assms validate_pdf_file_result[of env tmp vt md]
  by (simp add: validate_pdf_task_def process_validation_task_def Let_def summary_of_def
      process_pdf_with_blocks_keeps)

lemma retries_exhausted:
  assumes "r \<le> M" and "length envs = M + 1 - r"
    and "\<forall>env \<in> set envs. \<exists>e. resolve_path env p = Inl e"
    and "db_tasks db tid = Some task"
  shows "\<exists>t e. db_tasks (run_attempts M r envs tid p vt md db) tid = Some t \<and>
           status t = Failed \<and> completed_at t = Some (clock_end (last envs)) \<and>
           resolve_path (last envs) p = Inl e \<and>
           error_message t = Some (msg_max_retries @ str_of_error e)"
  using assms
proof (induction envs arbitrary: r db task)
  case Nil
  then show ?case by simp
next
  case (Cons env rest)
  from Cons.prems(3) obtain e where e: "resolve_path env p = Inl e" by auto
  from attempt_fails[OF Cons.prems(4) e, of M r vt md] obtain db' t where
    a: "validate_pdf_task M r env tid p vt md db = (Inl e, db')"
       "db_tasks db' tid = Some t" "status t = Failed" "completed_at t = Some (clock_end env)"
       "error_message t = Some (if r \<ge> M then msg_max_retries @ str_of_error e else str_of_error e)"
    by blast
  show ?case
  proof (cases "r = M")
    case True
    with Cons.prems(2) have "rest = []" by simp
    with True a e show ?thesis by simp
  next
    case False
    with Cons.prems(1) have r: "Suc r \<le> M" by simp
    with Cons.prems(2) have l: "length rest = M + 1 - Suc r" and ne: "rest \<noteq> []" by auto
    from Cons.prems(3) have f: "\<forall>env \<in> set rest. \<exists>e. resolve_path env p = Inl e" by simp
    from Cons.IH[OF r l f a(2)] ne r a(1) show ?thesis by simp
  qed
qed

lemma attempt_k_succeeds:
  assumes "r + k \<le> M" and "k < length envs"
    and "\<forall>i < k. \<exists>e. resolve_path (envs ! i) p = Inl e"
    and "resolve_path (envs ! k) p = Inr tmp"
    and "db_tasks db tid = Some task"
  shows "\<exists>t res. db_tasks (run_attempts M r envs tid p vt md db) tid = Some t \<and>
           status t = Completed \<and> completed_at t = Some (clock_end (envs ! k)) \<and>
           task_summary t =
             Some \<lparr>rs_is_valid = is_valid res, rs_page_count = page_count res,
                   rs_text_length = length (result_text res),
                   rs_has_errors = (errors res \<noteq> [])\<rparr> \<and>
           db_results (run_attempts M r envs tid p vt md db) = db_results db @
             [\<lparr>rr_task_id = tid, rr_pdf_path = p, rr_validation_type = vt, rr_result = res\<rparr>] \<and>
           (case validate_pdf (envs ! k) tmp vt md of
              Inr r \<Rightarrow> res = r
            | Inl e \<Rightarrow> \<not> is_valid res \<and>
                errors res = [msg_validation_failed @ str_of_error e] \<and> warnings res = [] \<and>
                page_count res = 0 \<and> result_text res = [] \<and> result_metadata res = [] \<and>
                file_size res = 0)"
  using assms
proof (induction k arbitrary: envs r db task)
  case 0
  then obtain env rest where envs: "envs = env # rest" by (cases envs) auto
  with 0 have s: "resolve_path env p = Inr tmp" by simp
  from attempt_succeeds[OF "0.prems"(5) s, of M r vt md] obtain db' t res where
    a: "validate_pdf_task M r env tid p vt md db = (Inr res, db')"
    and b: "db_tasks db' tid = Some t \<and> status t = Completed \<and>
           completed_at t = Some (clock_end env) \<and>
           task_summary t =
             Some \<lparr>rs_is_valid = is_valid res, rs_page_count = page_count res,
                   rs_text_length = length (result_text res),
                   rs_has_errors = (errors res \<noteq> [])\<rparr> \<and>
           db_results db' = db_results db @
             [\<lparr>rr_task_id = tid, rr_pdf_path = p, rr_validation_type = vt, rr_result = res\<rparr>] \<and>
           (case validate_pdf env tmp vt md of
              Inr r \<Rightarrow> res = r
            | Inl e \<Rightarrow> \<not> is_valid res \<and>
                errors res = [msg_validation_failed @ str_of_error e] \<and> warnings res = [] \<and>
                page_count res = 0 \<and> result_text res = [] \<and> result_metadata res = [] \<and>
                file_size res = 0)"
    by blast
  have "run_attempts M r envs tid p vt md db = db'" unfolding envs using a by simp
  moreover have "envs ! 0 = env" unfolding envs by simp
  ultimately show ?case using b by (intro exI[of _ t] exI[of _ res]) simp
next
  case (Suc k)
  then obtain env rest where envs: "envs = env # rest" by (cases envs) auto
  from Suc.prems(3)[rule_format, of 0] envs obtain e where e: "resolve_path env p = Inl e" by auto
  from attempt_fails[OF Suc.prems(5) e, of M r vt md] obtain db' t where
    a: "validate_pdf_task M r env tid p vt md db = (Inl e, db')" "db_tasks db' tid = Some t"
       "db_results db' = db_results db"
    by blast
  have 1: "Suc r + k \<le> M" using Suc.prems(1) by simp
  have 2: "k < length rest" using Suc.prems(2) envs by simp
  have 3: "\<forall>i < k. \<exists>e. resolve_path (rest ! i) p = Inl e"
    using Suc.prems(3) envs by auto
  have 4: "resolve_path (rest ! k) p = Inr tmp" using Suc.prems(4) envs by simp
  have run: "run_attempts M r envs tid p vt md db = run_attempts M (Suc r) rest tid p vt md db'"
    unfolding envs using a(1) 1 by simp
  have nth: "envs ! Suc k = rest ! k" unfolding envs by simp
  from Suc.IH[OF 1 2 3 4 a(2)] show ?case
    unfolding run nth a(3) .
qed

text \<open>
  Claim C8. For a task that is in the database: when all of the (max retries + 1)
  attempts raise, the task ends with status failed, its completion time set by the last
  attempt, and an error message that is the max-retries prefix followed by the message
  of the last exception; when the attempts before attempt \<open>k\<close> raise, with \<open>k\<close> at most the
  maximum, and attempt \<open>k\<close> succeeds, the task ends with status completed and its
  completion time set by attempt \<open>k\<close>, exactly one result row has been added, which holds
  the validation result of attempt \<open>k\<close>, and the stored summary has that result's
  validity flag, its page count, the length of its text and whether its error list is
  non-empty. That result is the dictionary that \<open>validate_pdf\<close> returns in attempt \<open>k\<close>,
  or, when \<open>validate_pdf\<close> raises there, the failure dictionary: invalid, one error made
  of the validation-failed prefix and the exception's message, no pages and no text.
\<close>

theorem retry_lifecycle:
  assumes "db_tasks db tid = Some task"
  shows "(length envs = M + 1 \<and> (\<forall>env \<in> set envs. \<exists>e. resolve_path env p = Inl e) \<longrightarrow>
           (\<exists>t e. db_tasks (run_attempts M 0 envs tid p vt md db) tid = Some t \<and>
              status t = Failed \<and> completed_at t = Some (clock_end (last envs)) \<and>
              resolve_path (last envs) p = Inl e \<and>
              error_message t = Some (msg_max_retries @ str_of_error e))) \<and>
         (\<forall>k tmp. k \<le> M \<and> k < length envs \<and>
              (\<forall>i < k. \<exists>e. resolve_path (envs ! i) p = Inl e) \<and>
              resolve_path (envs ! k) p = Inr tmp \<longrightarrow>
           (\<exists>t res. db_tasks (run_attempts M 0 envs tid p vt md db) tid = Some t \<and>
              status t = Completed \<and> completed_at t = Some (clock_end (envs ! k)) \<and>
              task_summary t =
                Some \<lparr>rs_is_valid = is_valid res, rs_page_count = page_count res,
                      rs_text_length = length (result_text res),
                      rs_has_errors = (errors res \<noteq> [])\<rparr> \<and>
              db_results (run_attempts M 0 envs tid p vt md db) = db_results db @
                [\<lparr>rr_task_id = tid, rr_pdf_path = p, rr_validation_type = vt,
                  rr_result = res\<rparr>] \<and>
              (case validate_pdf (envs ! k) tmp vt md of
                 Inr r \<Rightarrow> res = r
               | Inl e \<Rightarrow> \<not> is_valid res \<and>
                   errors res = [msg_validation_failed @ str_of_error e] \<and>
                   warnings res = [] \<and> page_count res = 0 \<and> result_text res = [] \<and>
                   result_metadata res = [] \<and> file_size res = 0)))"
proof (intro conjI allI impI)
  assume "length envs = M + 1 \<and> (\<forall>env \<in> set envs. \<exists>e. resolve_path env p = Inl e)"
  then show "\<exists>t e. db_tasks (run_attempts M 0 envs tid p vt md db) tid = Some t \<and>
              status t = Failed \<and> completed_at t = Some (clock_end (last envs)) \<and>
              resolve_path (last envs) p = Inl e \<and>
              error_message t = Some (msg_max_retries @ str_of_error e)"
    using retries_exhausted[of 0 M envs p db tid task vt md] assms by simp
next
  fix k tmp
  assume a: "k \<le> M \<and> k < length envs \<and>
              (\<forall>i < k. \<exists>e. resolve_path (envs ! i) p = Inl e) \<and>
              resolve_path (envs ! k) p = Inr tmp"
  then have "0 + k \<le> M" "k < length envs"
    "\<forall>i < k. \<exists>e. resolve_path (envs ! i) p = Inl e" "resolve_path (envs ! k) p = Inr tmp"
    by simp_all
  from attempt_k_succeeds[OF this assms, of vt md]
  show "\<exists>t res. db_tasks (run_attempts M 0 envs tid p vt md db) tid = Some t \<and>
              status t = Completed \<and> completed_at t = Some (clock_end (envs ! k)) \<and>
              task_summary t =
                Some \<lparr>rs_is_valid = is_valid res, rs_page_count = page_count res,
                      rs_text_length = length (result_text res),
                      rs_has_errors = (errors res \<noteq> [])\<rparr> \<and>
              db_results (run_attempts M 0 envs tid p vt md db) = db_results db @
                [\<lparr>rr_task_id = tid, rr_pdf_path = p, rr_validation_type = vt,
                  rr_result = res\<rparr>] \<and>
              (case validate_pdf (envs ! k) tmp vt md of
                 Inr r \<Rightarrow> res = r
               | Inl e \<Rightarrow> \<not> is_valid res \<and>
                   errors res = [msg_validation_failed @ str_of_error e] \<and>
                   warnings res = [] \<and> page_count res = 0 \<and> result_text res = [] \<and>
                   result_metadata res = [] \<and> file_size res = 0)" .
qed

lemma ex_empty_env_fails:
  "resolve_path ex_empty_env [47, 120] = Inl (FileNotFoundError (msg_local_not_found @ [47, 120]))"
  by (simp add: resolve_path_def is_local_path_def ex_empty_env_def)

lemma ex_bad_env_validates:
  "validate_pdf ex_bad_env [47, 120] type_standard () =
     Inr \<lparr>is_valid = True, errors = [], warnings = [], page_count = 2,
          result_text = [97, 92, 110, 97], result_metadata = [], file_size = 100,
          file_name = [47, 120], validation_type = type_standard\<rparr>"
  by (simp add: validate_pdf_def validate_pdf_try_def validate_file_basic_def ex_bad_env_def
      ex_empty_env_def open_pdf_document_def ex_bad_doc_def ex_two_pages_def ex_page_def
      type_standard_def type_enhanced_def type_strict_def standard_validation_def Let_def
      py_strip_def join_separator_def ascii_tables_def)

theorem retry_lifecycle_witness:
  "db_tasks ex_db [116] = Some ex_task \<and>
   length [ex_empty_env, ex_empty_env] = 1 + 1 \<and>
   (\<exists>e. resolve_path ex_empty_env [47, 120] = Inl e) \<and>
   (\<exists>t. db_tasks (run_attempts 1 0 [ex_empty_env, ex_empty_env] [116] [47, 120]
                     type_standard () ex_db) [116] = Some t \<and>
      status t = Failed \<and>
      error_message t = Some (msg_max_retries @ msg_local_not_found @ [47, 120])) \<and>
   resolve_path ex_bad_env [47, 120] = Inr [47, 120] \<and>
   validate_pdf ex_bad_env [47, 120] type_standard () =
     Inr \<lparr>is_valid = True, errors = [], warnings = [], page_count = 2,
          result_text = [97, 92, 110, 97], result_metadata = [], file_size = 100,
          file_name = [47, 120], validation_type = type_standard\<rparr> \<and>
   (\<exists>t. db_tasks (run_attempts 1 0 [ex_empty_env, ex_bad_env] [116] [47, 120]
                     type_standard () ex_db) [116] = Some t \<and>
      status t = Completed \<and> completed_at t = Some 2 \<and>
      task_summary t = Some \<lparr>rs_is_valid = True, rs_page_count = 2, rs_text_length = 4,
                               rs_has_errors = False\<rparr>) \<and>
   db_results (run_attempts 1 0 [ex_empty_env, ex_bad_env] [116] [47, 120]
                 type_standard () ex_db) =
     [\<lparr>rr_task_id = [116], rr_pdf_path = [47, 120], rr_validation_type = type_standard,
       rr_result = \<lparr>is_valid = True, errors = [], warnings = [], page_count = 2,
          result_text = [97, 92, 110, 97], result_metadata = [], file_size = 100,
          file_name = [47, 120], validation_type = type_standard\<rparr>\<rparr>]"
proof -
  let ?failing = "run_attempts 1 0 [ex_empty_env, ex_empty_env] [116] [47, 120]
                    type_standard () ex_db"
  let ?final = "run_attempts 1 0 [ex_empty_env, ex_bad_env] [116] [47, 120]
                  type_standard () ex_db"
  note t1 = retry_lifecycle [OF ex_db_task, of "[ex_empty_env, ex_empty_env]" 1 "[47, 120]"
      type_standard "()"]
  note t2 = retry_lifecycle [OF ex_db_task, of "[ex_empty_env, ex_bad_env]" 1 "[47, 120]"
      type_standard "()"]
  have f: "\<exists>e. resolve_path ex_empty_env [47, 120] = Inl e"
    by (simp add: ex_empty_env_fails)
  have l: "length [ex_empty_env, ex_empty_env] = 1 + 1" by simp
  from t1 have "length [ex_empty_env, ex_empty_env] = 1 + 1 \<and>
      (\<forall>env \<in> set [ex_empty_env, ex_empty_env]. \<exists>e. resolve_path env [47, 120] = Inl e) \<longrightarrow>
      (\<exists>t e. db_tasks ?failing [116] = Some t \<and>
         status t = Failed \<and>
         completed_at t = Some (clock_end (last [ex_empty_env, ex_empty_env])) \<and>
         resolve_path (last [ex_empty_env, ex_empty_env]) [47, 120] = Inl e \<and>
         error_message t = Some (msg_max_retries @ str_of_error e))"
    by (rule conjunct1)
  with f have 1: "\<exists>t. db_tasks ?failing [116] = Some t \<and>
      status t = Failed \<and>
      error_message t = Some (msg_max_retries @ msg_local_not_found @ [47, 120])"
    by (auto simp: ex_empty_env_fails)
  from t2 have "\<forall>k tmp. k \<le> 1 \<and> k < length [ex_empty_env, ex_bad_env] \<and>
        (\<forall>i < k. \<exists>e. resolve_path ([ex_empty_env, ex_bad_env] ! i) [47, 120] = Inl e) \<and>
        resolve_path ([ex_empty_env, ex_bad_env] ! k) [47, 120] = Inr tmp \<longrightarrow>
      (\<exists>t res. db_tasks ?final [116] = Some t \<and>
         status t = Completed \<and>
         completed_at t = Some (clock_end ([ex_empty_env, ex_bad_env] ! k)) \<and>
         task_summary t =
           Some \<lparr>rs_is_valid = is_valid res, rs_page_count = page_count res,
                 rs_text_length = length (result_text res),
                 rs_has_errors = (errors res \<noteq> [])\<rparr> \<and>
         db_results ?final = db_results ex_db @
           [\<lparr>rr_task_id = [116], rr_pdf_path = [47, 120], rr_validation_type = type_standard,
             rr_result = res\<rparr>] \<and>
         (case validate_pdf ([ex_empty_env, ex_bad_env] ! k) tmp type_standard () of
            Inr r \<Rightarrow> res = r
          | Inl e \<Rightarrow> \<not> is_valid res \<and>
              errors res = [msg_validation_failed @ str_of_error e] \<and>
              warnings res = [] \<and> page_count res = 0 \<and> result_text res = [] \<and>
              result_metadata res = [] \<and> file_size res = 0))"
    by (rule conjunct2)
  from this[rule_format, of 1 "[47, 120]"] f
  have "\<exists>t res. db_tasks ?final [116] = Some t \<and>
         status t = Completed \<and> completed_at t = Some (clock_end ex_bad_env) \<and>
         task_summary t =
           Some \<lparr>rs_is_valid = is_valid res, rs_page_count = page_count res,
                 rs_text_length = length (result_text res),
                 rs_has_errors = (errors res \<noteq> [])\<rparr> \<and>
         db_results ?final = db_results ex_db @
           [\<lparr>rr_task_id = [116], rr_pdf_path = [47, 120], rr_validation_type = type_standard,
             rr_result = res\<rparr>] \<and>
         res = \<lparr>is_valid = True, errors = [], warnings = [], page_count = 2,
          result_text = [97, 92, 110, 97], result_metadata = [], file_size = 100,
          file_name = [47, 120], validation_type = type_standard\<rparr>"
    by (simp add: ex_bad_env_resolves ex_bad_env_validates)
  then obtain t where t: "db_tasks ?final [116] = Some t" "status t = Completed"
      "completed_at t = Some (clock_end ex_bad_env)"
      "task_summary t = Some \<lparr>rs_is_valid = True, rs_page_count = 2, rs_text_length = 4,
                               rs_has_errors = False\<rparr>"
    and 3: "db_results ?final = db_results ex_db @
           [\<lparr>rr_task_id = [116], rr_pdf_path = [47, 120], rr_validation_type = type_standard,
             rr_result = \<lparr>is_valid = True, errors = [], warnings = [], page_count = 2,
          result_text = [97, 92, 110, 97], result_metadata = [], file_size = 100,
          file_name = [47, 120], validation_type = type_standard\<rparr>\<rparr>]"
    by auto
  have c: "clock_end ex_bad_env = 2" by (simp add: ex_bad_env_def ex_empty_env_def)
  from t c have 2: "\<exists>t. db_tasks ?final [116] = Some t \<and>
      status t = Completed \<and> completed_at t = Some 2 \<and>
      task_summary t = Some \<lparr>rs_is_valid = True, rs_page_count = 2, rs_text_length = 4,
                               rs_has_errors = False\<rparr>"
    by simp
  from 3 have 4: "db_results ?final =
     [\<lparr>rr_task_id = [116], rr_pdf_path = [47, 120], rr_validation_type = type_standard,
       rr_result = \<lparr>is_valid = True, errors = [], warnings = [], page_count = 2,
          result_text = [97, 92, 110, 97], result_metadata = [], file_size = 100,
          file_name = [47, 120], validation_type = type_standard\<rparr>\<rparr>]"
    by (simp add: ex_db_def)
  from ex_db_task l f 1 ex_bad_env_resolves ex_bad_env_validates 2 4 show ?thesis
    by (intro conjI)
qed

end
